theory Spec2Isabelle
  imports Complex_Main
begin

section \<open>The galaxy system of the Drift Lab website (GalaxySystem.ts)\<close>

text \<open>
  The source is one TypeScript class, \<open>GalaxySystem\<close>, that builds a field of sprites,
  animates it from the host's frame callbacks and follows size and visibility changes of
  the page. JavaScript numbers are modelled as real numbers (no rounding, no NaN); values
  the host platform defines as integers (window inner size, client size, timer and frame
  handles) are integers. Calls to \<open>console.log\<close> and \<open>console.warn\<close> are left out, and
  the constructor is taken to get its rendering context. The class runs in a browser: the
  branch of \<open>deviceType\<close> for a missing \<open>window\<close> is not modelled.
\<close>

subsection \<open>Host readings and device tier\<close>

datatype device = Mobile | Tablet | Desktop

text \<open>
  What the class reads from the host at the time of a call: the window, the user agent
  (only the result of the mobile pattern test), the canvas element and its parent
  (\<open>None\<close> when \<open>canvas.parentElement\<close> is null), the document and the clock.
\<close>

record host =
  innerWidth :: int
  innerHeight :: int
  isMobileUA :: bool
  devicePixelRatio :: real
  parentRect :: "(real \<times> real) option"
  canvasRect :: "real \<times> real"
  clientWidth :: int
  clientHeight :: int
  documentHidden :: bool
  hasResizeObserver :: bool
  dateNow :: int

definition deviceType :: "host \<Rightarrow> device" where
  "deviceType h =
     (let width = innerWidth h in
      if width < 640 \<or> (isMobileUA h \<and> width < 1024) then Mobile
      else if width < 1024 then Tablet
      else Desktop)"

text \<open>\<open>Math.round\<close>: the nearest integer, a tie going up.\<close>

definition Math_round :: "real \<Rightarrow> int" where
  "Math_round v = \<lfloor>v + 1 / 2\<rfloor>"

text \<open>\<open>a || b\<close> on an integer: \<open>b\<close> when \<open>a\<close> is 0.\<close>

definition orElse :: "int \<Rightarrow> int \<Rightarrow> int" where
  "orElse a b = (if a = 0 then b else a)"

definition getCanvasSize :: "host \<Rightarrow> int \<times> int" where
  "getCanvasSize h =
     (let fromCanvas =
        (let rect = canvasRect h in
         if fst rect > 0 \<and> snd rect > 0 then (Math_round (fst rect), Math_round (snd rect))
         else if clientWidth h > 0 \<and> clientHeight h > 0
           then (Math_round (of_int (clientWidth h)), Math_round (of_int (clientHeight h)))
         else (Math_round (of_int (orElse (innerWidth h) 1920)),
               Math_round (of_int (orElse (innerHeight h) 1080))))
      in case parentRect h of
           None \<Rightarrow> fromCanvas
         | Some rect \<Rightarrow>
             if fst rect > 0 \<and> snd rect > 0
             then (Math_round (fst rect), Math_round (snd rect))
             else fromCanvas)"

definition PARTICLES_COUNT :: nat where "PARTICLES_COUNT = 8000"

definition optimizedParticleCount :: "host \<Rightarrow> nat" where
  "optimizedParticleCount h =
     (case deviceType h of
        Mobile \<Rightarrow> nat \<lfloor>real PARTICLES_COUNT * (3 / 10)\<rfloor>
      | Tablet \<Rightarrow> nat \<lfloor>real PARTICLES_COUNT * (6 / 10)\<rfloor>
      | Desktop \<Rightarrow> PARTICLES_COUNT)"

record vec3 =
  vx :: real
  vy :: real
  vz :: real

definition getCameraPosition :: "host \<Rightarrow> vec3" where
  "getCameraPosition h =
     (case deviceType h of
        Mobile \<Rightarrow> \<lparr>vx = 0, vy = 7, vz = 7\<rparr>
      | Tablet \<Rightarrow> \<lparr>vx = 0, vy = 7, vz = 14\<rparr>
      | Desktop \<Rightarrow> \<lparr>vx = 0, vy = 8, vz = 15\<rparr>)"

definition getCameraLookAt :: "host \<Rightarrow> vec3" where
  "getCameraLookAt h =
     (case deviceType h of
        Mobile \<Rightarrow> \<lparr>vx = 3 / 2, vy = 2, vz = 0\<rparr>
      | Tablet \<Rightarrow> \<lparr>vx = 0, vy = 0, vz = 0\<rparr>
      | Desktop \<Rightarrow> \<lparr>vx = 0, vy = 0, vz = 0\<rparr>)"

definition getCameraFOV :: "host \<Rightarrow> real" where
  "getCameraFOV h = (case deviceType h of Mobile \<Rightarrow> 70 | Tablet \<Rightarrow> 72 | Desktop \<Rightarrow> 75)"

definition optimalPixelRatio :: "host \<Rightarrow> real" where
  "optimalPixelRatio h =
     (case deviceType h of
        Mobile \<Rightarrow> min (devicePixelRatio h) (3 / 2)
      | Tablet \<Rightarrow> min (devicePixelRatio h) 2
      | Desktop \<Rightarrow> min (devicePixelRatio h) 2)"

subsection \<open>Particles\<close>

text \<open>
  \<open>createGalaxy\<close> rasterises two textures, one per glyph, and every sprite material
  refers to one of them: a texture is identified by which of the two objects it is. The
  tint is the inside colour moved towards the outside colour by a factor; the colour
  arithmetic of the rendering library is not unfolded.
\<close>

datatype texture = Texture1 | Texture0

datatype tint = Lerp nat nat real

record SpriteMaterial =
  mapTexture :: "texture option"
  transparent :: bool
  opacity :: real
  additiveBlending :: bool
  color :: tint
  depthWrite :: bool

record Sprite =
  material :: SpriteMaterial
  scale :: vec3
  position :: vec3

record ParticleData =
  sprite :: Sprite
  initialAngle :: real
  radius :: real
  orbitalSpeed :: real
  branchAngle :: real
  randomOffset :: vec3

definition RADIUS :: real where "RADIUS = 20"
definition BRANCHES :: nat where "BRANCHES = 4"
definition SPIN :: real where "SPIN = 3 / 2"
definition RANDOMNESS :: real where "RANDOMNESS = 4 / 10"
definition RANDOMNESS_POWER :: real where "RANDOMNESS_POWER = 3"
definition INSIDE_COLOR :: nat where "INSIDE_COLOR = 3900150"
definition OUTSIDE_COLOR :: nat where "OUTSIDE_COLOR = 1982639"

text \<open>\<open>Math.pow\<close> on a base that is not negative (every base here is a random draw).\<close>

definition Math_pow :: "real \<Rightarrow> real \<Rightarrow> real" where
  "Math_pow b e = b powr e"

text \<open>
  One pass of the loop body of \<open>createGalaxy\<close>. \<open>random k\<close> is what the \<open>k\<close>-th call
  of \<open>Math.random()\<close> made by \<open>createGalaxy\<close> returns; every pass makes nine calls, in
  this order: the unused \<open>radius\<close>, the density sample, the glyph, and a magnitude and a
  sign for each of the three offsets.
\<close>

definition createParticle :: "device \<Rightarrow> (nat \<Rightarrow> real) \<Rightarrow> nat \<Rightarrow> ParticleData" where
  "createParticle device random i =
     (let unusedRadius = random (9 * i) * RADIUS;
          densityPower = (if device = Mobile then 3 else 5 / 2);
          radiusPower = Math_pow (random (9 * i + 1)) densityPower;
          finalRadius = radiusPower * RADIUS;
          initialSpinAngle = finalRadius * SPIN;
          branchAngle = (real (i mod BRANCHES) / real BRANCHES) * pi * 2;
          initialAngle = branchAngle + initialSpinAngle;
          binaryValue = (if random (9 * i + 2) < 1 / 2 then 1 else 0 :: nat);
          randomX = Math_pow (random (9 * i + 3)) RANDOMNESS_POWER * RANDOMNESS
                      * (if random (9 * i + 4) < 1 / 2 then 1 else - 1);
          randomY = Math_pow (random (9 * i + 5)) RANDOMNESS_POWER * RANDOMNESS
                      * (if random (9 * i + 6) < 1 / 2 then 1 else - 1);
          randomZ = Math_pow (random (9 * i + 7)) RANDOMNESS_POWER * RANDOMNESS * (3 / 10)
                      * (if random (9 * i + 8) < 1 / 2 then 1 else - 1);
          x = cos initialAngle * finalRadius + randomX;
          y = randomY;
          z = sin initialAngle * finalRadius + randomZ;
          mixedColor = Lerp INSIDE_COLOR OUTSIDE_COLOR (finalRadius / RADIUS);
          distanceFactor = finalRadius / RADIUS;
          baseOpacity = (if device = Mobile then 4 / 10 else 5 / 10);
          centerOpacity = baseOpacity * (4 / 10);
          edgeOpacity = baseOpacity * (12 / 10);
          opacity = centerOpacity + (edgeOpacity - centerOpacity) * distanceFactor;
          spriteMaterial = \<lparr>mapTexture = Some (if binaryValue = 1 then Texture1 else Texture0),
                             transparent = True, opacity = opacity, additiveBlending = True,
                             color = mixedColor, depthWrite = False\<rparr>;
          baseSize = (if device = Mobile then 12 / 100
                      else if device = Tablet then 14 / 100 else 15 / 100);
          size = baseSize * (1 - finalRadius / RADIUS * (1 / 2));
          sprite = \<lparr>material = spriteMaterial,
                     scale = \<lparr>vx = size, vy = size, vz = 1\<rparr>,
                     position = \<lparr>vx = x, vy = y, vz = z\<rparr>\<rparr>;
          orbitalSpeed = (1 / 2) / sqrt (finalRadius + 1)
      in \<lparr>sprite = sprite, initialAngle = initialAngle, radius = finalRadius,
            orbitalSpeed = orbitalSpeed, branchAngle = branchAngle,
            randomOffset = \<lparr>vx = randomX, vy = randomY, vz = randomZ\<rparr>\<rparr>)"

text \<open>The loop \<open>for (let i = 0; i < particleCount; i++)\<close>, pushing one particle a pass.\<close>

function createLoop ::
  "device \<Rightarrow> (nat \<Rightarrow> real) \<Rightarrow> nat \<Rightarrow> nat \<Rightarrow> ParticleData list \<Rightarrow> ParticleData list" where
  "createLoop device random particleCount i ps =
     (if i < particleCount
      then createLoop device random particleCount (Suc i) (ps @ [createParticle device random i])
      else ps)"
  by pat_completeness auto
termination
  by (relation "measure (\<lambda>(device, random, particleCount, i, ps). particleCount - i)") auto

declare createLoop.simps [simp del]

subsection \<open>The system and the host's callback registry\<close>

text \<open>
  Work the class hands to the host: frame callbacks (\<open>requestAnimationFrame\<close>) and timer
  callbacks (\<open>setTimeout\<close>), each named by what it runs, and the three event listeners.
  The \<open>source\<close> of a size update is the string the callback carries (it only labels
  diagnostics).
\<close>

datatype source = WindowResizeSource | OrientationChangeSource | ResizeObserverSource

datatype frameCallback = AnimateCallback | UpdateSizeCallback source

datatype timerCallback =
  ResizeDebounce | OrientationDebounce | ObserverDebounce | PixelRatioUpdate

datatype listener = ResizeListener | OrientationListener | VisibilityListener

text \<open>Calls into the rendering library and the host, in the order they are made.\<close>

datatype effect =
    Render
  | RendererSetSize int int bool
  | RendererSetPixelRatio real
  | RendererSetClearColor
  | RendererDispose
  | CameraPositionSet vec3
  | CameraLookAt vec3
  | CameraUpdateProjectionMatrix
  | SceneAdd
  | SceneRemove
  | TextureDispose texture
  | MaterialDispose nat
  | RequestAnimationFrame nat frameCallback
  | CancelAnimationFrame nat
  | SetTimeout nat timerCallback nat
  | ClearTimeout nat
  | AddEventListener listener
  | RemoveEventListener listener
  | ObserverObserve
  | ObserverDisconnect

record Group =
  rotationX :: real
  rotationY :: real

text \<open>\<open>aspect\<close> is \<open>None\<close> when the quotient is not a finite number (a zero height).\<close>

record Camera =
  cameraPosition :: vec3
  cameraLookAt :: vec3
  fov :: real
  aspect :: "real option"

text \<open>
  The fields of the class, the three debounce handles that \<open>handleResize\<close> keeps in its
  closure, the part of the renderer the class sets, and the host's side: the pending frame
  and timer callbacks by handle, the next handle of each kind (handles are positive and
  never reused), the registered listeners, whether the observer is connected, and the log
  of effects. A handler field is \<open>True\<close> when it holds the function.
\<close>

record GalaxySystem =
  camera :: Camera
  galaxyGroup :: "Group option"
  particles :: "ParticleData list"
  animationId :: "nat option"
  isDestroyed :: bool
  time :: real
  resizeHandler :: bool
  orientationHandler :: bool
  visibilityHandler :: bool
  resizeTimeout :: "nat option"
  resizeObserver :: bool
  renderLogCounter :: nat
  lastRenderLogTime :: int
  lastSize :: "(int \<times> int) option"
  lastDevice :: "device option"
  updateSizePending :: bool
  isPageVisible :: bool
  resizeDebounceTimeout :: "nat option"
  orientationDebounceTimeout :: "nat option"
  observerDebounceTimeout :: "nat option"
  rendererSize :: "int \<times> int"
  rendererPixelRatio :: real
  frames :: "nat \<rightharpoonup> frameCallback"
  timers :: "nat \<rightharpoonup> timerCallback"
  nextFrame :: nat
  nextTimer :: nat
  listeners :: "listener set"
  observerConnected :: bool
  effects :: "effect list"

definition emit :: "effect list \<Rightarrow> GalaxySystem \<Rightarrow> GalaxySystem" where
  "emit es s = s\<lparr>effects := effects s @ es\<rparr>"

definition requestAnimationFrame :: "frameCallback \<Rightarrow> GalaxySystem \<Rightarrow> nat \<times> GalaxySystem" where
  "requestAnimationFrame cb s =
     (nextFrame s,
      emit [RequestAnimationFrame (nextFrame s) cb]
        (s\<lparr>frames := (frames s)(nextFrame s \<mapsto> cb), nextFrame := Suc (nextFrame s)\<rparr>))"

definition cancelAnimationFrame :: "nat \<Rightarrow> GalaxySystem \<Rightarrow> GalaxySystem" where
  "cancelAnimationFrame handle s =
     emit [CancelAnimationFrame handle] (s\<lparr>frames := (frames s)(handle := None)\<rparr>)"

definition setTimeout :: "timerCallback \<Rightarrow> nat \<Rightarrow> GalaxySystem \<Rightarrow> nat \<times> GalaxySystem" where
  "setTimeout cb delay s =
     (nextTimer s,
      emit [SetTimeout (nextTimer s) cb delay]
        (s\<lparr>timers := (timers s)(nextTimer s \<mapsto> cb), nextTimer := Suc (nextTimer s)\<rparr>))"

definition clearTimeout :: "nat \<Rightarrow> GalaxySystem \<Rightarrow> GalaxySystem" where
  "clearTimeout handle s =
     emit [ClearTimeout handle] (s\<lparr>timers := (timers s)(handle := None)\<rparr>)"

subsection \<open>Construction\<close>

definition createGalaxy :: "host \<Rightarrow> (nat \<Rightarrow> real) \<Rightarrow> GalaxySystem \<Rightarrow> GalaxySystem" where
  "createGalaxy h random s =
     (let particleCount = optimizedParticleCount h;
          device = deviceType h;
          ps = createLoop device random particleCount 0 [];
          s1 = emit [SceneAdd] (s\<lparr>particles := ps\<rparr>)
      in s1\<lparr>galaxyGroup :=
              Some \<lparr>rotationX = (if device = Mobile then - pi * (8 / 100) else - pi * (1 / 10)),
                    rotationY = pi * (1 / 10)\<rparr>\<rparr>)"

text \<open>
  \<open>updateSize(source)\<close>, the function every debounced trigger ends in: it does nothing
  when the system is destroyed or an update is pending, and otherwise marks the update
  pending and asks for a frame.
\<close>

definition updateSize :: "source \<Rightarrow> GalaxySystem \<Rightarrow> GalaxySystem" where
  "updateSize src s =
     (if isDestroyed s \<or> updateSizePending s then s
      else snd (requestAnimationFrame (UpdateSizeCallback src) (s\<lparr>updateSizePending := True\<rparr>)))"

text \<open>The frame callback that \<open>updateSize\<close> registers.\<close>

definition updateSizeFrame :: "host \<Rightarrow> source \<Rightarrow> GalaxySystem \<Rightarrow> GalaxySystem" where
  "updateSizeFrame h src s =
     (if isDestroyed s then s\<lparr>updateSizePending := False\<rparr>
      else
        (let (width, height) = getCanvasSize h in
         if width = 0 \<or> height = 0 then s\<lparr>updateSizePending := False\<rparr>
         else if (case lastSize s of None \<Rightarrow> False | Some l \<Rightarrow> fst l = width \<and> snd l = height)
           then s\<lparr>updateSizePending := False\<rparr>
         else
           (let device = deviceType h;
                camPos = getCameraPosition h;
                lookAt = getCameraLookAt h;
                s1 = emit [CameraPositionSet camPos, CameraLookAt lookAt]
                       (s\<lparr>camera := (camera s)\<lparr>cameraPosition := camPos, cameraLookAt := lookAt\<rparr>\<rparr>);
                aspectNow = real_of_int width / real_of_int height;
                fovNow = getCameraFOV h;
                s2 = emit [CameraUpdateProjectionMatrix]
                       (s1\<lparr>camera := (camera s1)\<lparr>aspect := Some aspectNow, fov := fovNow\<rparr>\<rparr>);
                s3 = emit [RendererSetSize width height False] (s2\<lparr>rendererSize := (width, height)\<rparr>);
                s4 = (case galaxyGroup s3 of None \<Rightarrow> s3 | Some g \<Rightarrow> emit [Render] s3);
                s5 = s4\<lparr>lastSize := Some (width, height), lastDevice := Some device,
                        updateSizePending := False\<rparr>;
                s6 = (case resizeTimeout s5 of None \<Rightarrow> s5 | Some handle \<Rightarrow> clearTimeout handle s5);
                (handle, s7) = setTimeout PixelRatioUpdate 150 s6
            in s7\<lparr>resizeTimeout := Some handle\<rparr>)))"

text \<open>The timer callback that a completed size update arms.\<close>

definition pixelRatioTimer :: "host \<Rightarrow> GalaxySystem \<Rightarrow> GalaxySystem" where
  "pixelRatioTimer h s =
     (if isDestroyed s then s
      else emit [RendererSetPixelRatio (optimalPixelRatio h)]
             (s\<lparr>rendererPixelRatio := optimalPixelRatio h\<rparr>))"

text \<open>The listeners and the observer callback: each replaces its own debounce timer.\<close>

definition handleResizeEvent :: "GalaxySystem \<Rightarrow> GalaxySystem" where
  "handleResizeEvent s =
     (let s1 = (case resizeDebounceTimeout s of None \<Rightarrow> s | Some handle \<Rightarrow> clearTimeout handle s);
          (handle, s2) = setTimeout ResizeDebounce 16 s1
      in s2\<lparr>resizeDebounceTimeout := Some handle\<rparr>)"

definition handleOrientationChange :: "GalaxySystem \<Rightarrow> GalaxySystem" where
  "handleOrientationChange s =
     (let s1 = (case orientationDebounceTimeout s of None \<Rightarrow> s
                | Some handle \<Rightarrow> clearTimeout handle s);
          (handle, s2) = setTimeout OrientationDebounce 150 s1
      in s2\<lparr>orientationDebounceTimeout := Some handle\<rparr>)"

definition observerCallback :: "GalaxySystem \<Rightarrow> GalaxySystem" where
  "observerCallback s =
     (let s1 = (case observerDebounceTimeout s of None \<Rightarrow> s
                | Some handle \<Rightarrow> clearTimeout handle s);
          (handle, s2) = setTimeout ObserverDebounce 16 s1
      in s2\<lparr>observerDebounceTimeout := Some handle\<rparr>)"

definition handleResize :: "host \<Rightarrow> GalaxySystem \<Rightarrow> GalaxySystem" where
  "handleResize h s =
     (let s1 = (if hasResizeObserver h
                then (let s' = s\<lparr>resizeObserver := True\<rparr>
                      in case parentRect h of
                           None \<Rightarrow> s'
                         | Some parent \<Rightarrow> emit [ObserverObserve] (s'\<lparr>observerConnected := True\<rparr>))
                else s);
          s2 = emit [AddEventListener ResizeListener, AddEventListener OrientationListener]
                 (s1\<lparr>listeners := listeners s1 \<union> {ResizeListener, OrientationListener}\<rparr>)
      in s2\<lparr>resizeHandler := True, orientationHandler := True\<rparr>)"

subsection \<open>The animation loop\<close>

text \<open>The body of \<open>particles.forEach\<close> in \<open>animate\<close>, at simulation time \<open>t\<close>.\<close>

definition orbit :: "real \<Rightarrow> ParticleData \<Rightarrow> ParticleData" where
  "orbit t particle =
     (let currentAngle = initialAngle particle + orbitalSpeed particle * t;
          x = cos currentAngle * radius particle + vx (randomOffset particle);
          z = sin currentAngle * radius particle + vz (randomOffset particle)
      in particle\<lparr>sprite := (sprite particle)\<lparr>position :=
           (position (sprite particle))\<lparr>vx := x, vz := z, vy := vy (randomOffset particle)\<rparr>\<rparr>\<rparr>)"

definition animate :: "host \<Rightarrow> GalaxySystem \<Rightarrow> GalaxySystem" where
  "animate h s =
     (if isDestroyed s then s
      else if isPageVisible s then
        (let (handle, s1) = requestAnimationFrame AnimateCallback s;
             s2 = s1\<lparr>animationId := Some handle\<rparr>
         in case galaxyGroup s2 of
              None \<Rightarrow> s2
            | Some g \<Rightarrow>
                if isPageVisible s2 then
                  (let t = time s2 + 5 / 1000;
                       s3 = s2\<lparr>time := t, particles := map (orbit t) (particles s2),
                               galaxyGroup := Some (g\<lparr>rotationY := rotationY g + 3 / 100000\<rparr>)\<rparr>;
                       s4 = emit [Render] s3;
                       s5 = s4\<lparr>renderLogCounter := Suc (renderLogCounter s4)\<rparr>;
                       now = dateNow h
                   in if now - lastRenderLogTime s5 > 5000
                      then s5\<lparr>renderLogCounter := 0, lastRenderLogTime := now\<rparr>
                      else s5)
                else s2)
      else s\<lparr>animationId := None\<rparr>)"

text \<open>\<open>!this.animationId\<close>: the handle is null or 0.\<close>

definition noAnimationId :: "GalaxySystem \<Rightarrow> bool" where
  "noAnimationId s = (case animationId s of None \<Rightarrow> True | Some handle \<Rightarrow> handle = 0)"

definition handleVisibilityChange :: "host \<Rightarrow> GalaxySystem \<Rightarrow> GalaxySystem" where
  "handleVisibilityChange h s =
     (let s1 = s\<lparr>isPageVisible := \<not> documentHidden h\<rparr> in
      if isPageVisible s1 then
        (if noAnimationId s1 \<and> \<not> isDestroyed s1 then animate h s1 else s1)
      else
        (case animationId s1 of
           None \<Rightarrow> s1
         | Some handle \<Rightarrow> (cancelAnimationFrame handle s1)\<lparr>animationId := None\<rparr>))"

definition handleVisibility :: "host \<Rightarrow> GalaxySystem \<Rightarrow> GalaxySystem" where
  "handleVisibility h s =
     (let s1 = s\<lparr>isPageVisible := \<not> documentHidden h\<rparr>;
          s2 = emit [AddEventListener VisibilityListener]
                 (s1\<lparr>listeners := listeners s1 \<union> {VisibilityListener}\<rparr>)
      in s2\<lparr>visibilityHandler := True\<rparr>)"

subsection \<open>Teardown\<close>

text \<open>
  The loop \<open>particles.forEach\<close> of \<open>destroy\<close> (in its last block): for each particle, in order, the
  texture of its material (when it has one) and then the material. Materials are one per
  sprite; the log names a material by the index of its particle.
\<close>

fun disposeParticles :: "nat \<Rightarrow> ParticleData list \<Rightarrow> effect list" where
  "disposeParticles i [] = []"
| "disposeParticles i (particle # rest) =
     (case mapTexture (material (sprite particle)) of
        None \<Rightarrow> []
      | Some t \<Rightarrow> [TextureDispose t])
     @ [MaterialDispose i] @ disposeParticles (Suc i) rest"

text \<open>The blocks of \<open>destroy\<close>, in the order of the source, then \<open>destroy\<close> itself.\<close>

definition cancelAnimation :: "GalaxySystem \<Rightarrow> GalaxySystem" where
  "cancelAnimation s =
     (case animationId s of
        None \<Rightarrow> s
      | Some handle \<Rightarrow> (cancelAnimationFrame handle s)\<lparr>animationId := None\<rparr>)"

definition disconnectObserver :: "GalaxySystem \<Rightarrow> GalaxySystem" where
  "disconnectObserver s =
     (if resizeObserver s
      then emit [ObserverDisconnect] (s\<lparr>observerConnected := False, resizeObserver := False\<rparr>)
      else s)"

definition removeResizeListener :: "GalaxySystem \<Rightarrow> GalaxySystem" where
  "removeResizeListener s =
     (if resizeHandler s
      then emit [RemoveEventListener ResizeListener]
             (s\<lparr>listeners := listeners s - {ResizeListener}, resizeHandler := False\<rparr>)
      else s)"

definition removeOrientationListener :: "GalaxySystem \<Rightarrow> GalaxySystem" where
  "removeOrientationListener s =
     (if orientationHandler s
      then emit [RemoveEventListener OrientationListener]
             (s\<lparr>listeners := listeners s - {OrientationListener}, orientationHandler := False\<rparr>)
      else s)"

definition removeVisibilityListener :: "GalaxySystem \<Rightarrow> GalaxySystem" where
  "removeVisibilityListener s =
     (if visibilityHandler s
      then emit [RemoveEventListener VisibilityListener]
             (s\<lparr>listeners := listeners s - {VisibilityListener}, visibilityHandler := False\<rparr>)
      else s)"

definition clearResizeTimeout :: "GalaxySystem \<Rightarrow> GalaxySystem" where
  "clearResizeTimeout s =
     (case resizeTimeout s of
        None \<Rightarrow> s
      | Some handle \<Rightarrow> (clearTimeout handle s)\<lparr>resizeTimeout := None\<rparr>)"

definition disposeGalaxy :: "GalaxySystem \<Rightarrow> GalaxySystem" where
  "disposeGalaxy s =
     (case galaxyGroup s of
        None \<Rightarrow> s
      | Some g \<Rightarrow>
          (emit (disposeParticles 0 (particles s) @ [SceneRemove]) s)
            \<lparr>galaxyGroup := None, particles := []\<rparr>)"

definition destroy :: "GalaxySystem \<Rightarrow> GalaxySystem" where
  "destroy s =
     (let s0 = s\<lparr>isDestroyed := True\<rparr>;
          s1 = cancelAnimation s0;
          s2 = disconnectObserver s1;
          s3 = removeResizeListener s2;
          s4 = removeOrientationListener s3;
          s5 = removeVisibilityListener s4;
          s6 = clearResizeTimeout s5;
          s7 = disposeGalaxy s6
      in emit [RendererDispose] s7)"

subsection \<open>The constructor\<close>

text \<open>The field initialisers; the camera and the renderer values are set by the constructor.\<close>

definition initialSystem :: GalaxySystem where
  "initialSystem =
     \<lparr>camera = \<lparr>cameraPosition = \<lparr>vx = 0, vy = 0, vz = 0\<rparr>,
                cameraLookAt = \<lparr>vx = 0, vy = 0, vz = 0\<rparr>, fov = 50, aspect = Some 1\<rparr>,
      galaxyGroup = None, particles = [], animationId = None, isDestroyed = False, time = 0,
      resizeHandler = False, orientationHandler = False, visibilityHandler = False,
      resizeTimeout = None, resizeObserver = False, renderLogCounter = 0,
      lastRenderLogTime = 0, lastSize = None, lastDevice = None, updateSizePending = False,
      isPageVisible = True, resizeDebounceTimeout = None, orientationDebounceTimeout = None,
      observerDebounceTimeout = None, rendererSize = (0, 0), rendererPixelRatio = 1,
      frames = Map.empty, timers = Map.empty, nextFrame = 1, nextTimer = 1, listeners = {},
      observerConnected = False, effects = []\<rparr>"

definition construct :: "host \<Rightarrow> (nat \<Rightarrow> real) \<Rightarrow> GalaxySystem" where
  "construct h random =
     (let initialSize = getCanvasSize h;
          s1 = emit [RendererSetSize (fst initialSize) (snd initialSize) True]
                 (initialSystem\<lparr>rendererSize := initialSize\<rparr>);
          pixelRatio = optimalPixelRatio h;
          s2 = emit [RendererSetPixelRatio pixelRatio, RendererSetClearColor]
                 (s1\<lparr>rendererPixelRatio := pixelRatio\<rparr>);
          aspectNow = (if snd initialSize = 0 then None
                       else Some (real_of_int (fst initialSize) / real_of_int (snd initialSize)));
          fovNow = getCameraFOV h;
          camPos = getCameraPosition h;
          lookAt = getCameraLookAt h;
          s3 = emit [CameraPositionSet camPos, CameraLookAt lookAt]
                 (s2\<lparr>camera := \<lparr>cameraPosition = camPos, cameraLookAt = lookAt,
                                 fov = fovNow, aspect = aspectNow\<rparr>\<rparr>);
          s4 = createGalaxy h random s3;
          s5 = handleResize h s4;
          s6 = handleVisibility h s5
      in animate h s6)"

subsection \<open>What the host may do next\<close>

text \<open>
  After construction the host drives the system: it dispatches an event to a registered
  listener, notifies a connected observer, runs a pending timer or frame callback (which
  leaves the registry as it is run), or the page calls \<open>destroy()\<close>. An event with no
  listener, and a handle that is not pending, change nothing. Each step comes with the
  host's readings at that moment. Time is not modelled: a pending callback may run at any
  moment and in any order with the others, whatever its delay. \<open>step\<close> does not look at
  the document's visibility either; what a browser never does is said by \<open>browserAllows\<close>
  below.
\<close>

datatype event =
    WindowResize
  | OrientationChange
  | ResizeObserved
  | VisibilityChange
  | TimerFires nat
  | FrameFires nat
  | DestroyCall

definition runTimer :: "host \<Rightarrow> timerCallback \<Rightarrow> GalaxySystem \<Rightarrow> GalaxySystem" where
  "runTimer h cb s =
     (case cb of
        ResizeDebounce \<Rightarrow> updateSize WindowResizeSource s
      | OrientationDebounce \<Rightarrow> updateSize OrientationChangeSource s
      | ObserverDebounce \<Rightarrow> updateSize ResizeObserverSource s
      | PixelRatioUpdate \<Rightarrow> pixelRatioTimer h s)"

definition runFrame :: "host \<Rightarrow> frameCallback \<Rightarrow> GalaxySystem \<Rightarrow> GalaxySystem" where
  "runFrame h cb s =
     (case cb of
        AnimateCallback \<Rightarrow> animate h s
      | UpdateSizeCallback src \<Rightarrow> updateSizeFrame h src s)"

fun step :: "host \<Rightarrow> event \<Rightarrow> GalaxySystem \<Rightarrow> GalaxySystem" where
  "step h WindowResize s = (if ResizeListener \<in> listeners s then handleResizeEvent s else s)"
| "step h OrientationChange s =
     (if OrientationListener \<in> listeners s then handleOrientationChange s else s)"
| "step h ResizeObserved s = (if observerConnected s then observerCallback s else s)"
| "step h VisibilityChange s =
     (if VisibilityListener \<in> listeners s then handleVisibilityChange h s else s)"
| "step h (TimerFires handle) s =
     (case timers s handle of
        None \<Rightarrow> s
      | Some cb \<Rightarrow> runTimer h cb (s\<lparr>timers := (timers s)(handle := None)\<rparr>))"
| "step h (FrameFires handle) s =
     (case frames s handle of
        None \<Rightarrow> s
      | Some cb \<Rightarrow> runFrame h cb (s\<lparr>frames := (frames s)(handle := None)\<rparr>))"
| "step h DestroyCall s = destroy s"

fun run :: "(host \<times> event) list \<Rightarrow> GalaxySystem \<Rightarrow> GalaxySystem" where
  "run [] s = s"
| "run ((h, e) # rest) s = run rest (step h e s)"


text \<open>The states the system can be in: built by the constructor and driven by the host.\<close>

inductive reachable :: "GalaxySystem \<Rightarrow> bool" where
  constructed: "reachable (construct h random)"
| stepped: "reachable s \<Longrightarrow> reachable (step h e s)"

subsection \<open>Derived notions\<close>

text \<open>
  A size update's frame callback goes through (it sets the camera and the renderer and
  renders) when the system is not destroyed, the resolved size has no zero dimension and
  it differs from the last size stored.
\<close>

definition resizes :: "host \<Rightarrow> GalaxySystem \<Rightarrow> bool" where
  "resizes h s \<longleftrightarrow>
     \<not> isDestroyed s \<and> fst (getCanvasSize h) \<noteq> 0 \<and> snd (getCanvasSize h) \<noteq> 0 \<and>
     lastSize s \<noteq> Some (getCanvasSize h)"

text \<open>
  Facts about the states the system can be in, each shown below to hold after the
  constructor and to survive every step. Frame handles are positive and below the next
  handle. The pending \<open>animate\<close> callback is the one \<open>animationId\<close> names, and there is
  none once the system is destroyed or the page is hidden. At most one size update is
  pending, and then \<open>updateSizePending\<close> is set. A registered listener has its handler field
  set, and a connected observer its field. A destroyed system has released everything; a
  live one has its group. Every particle keeps the orbital speed of its radius and has a
  texture.
\<close>

definition framesFresh :: "GalaxySystem \<Rightarrow> bool" where
  "framesFresh s \<longleftrightarrow>
     0 < nextFrame s \<and> (\<forall>i cb. frames s i = Some cb \<longrightarrow> 0 < i \<and> i < nextFrame s)"

definition animationTracked :: "GalaxySystem \<Rightarrow> bool" where
  "animationTracked s \<longleftrightarrow>
     (\<forall>i. frames s i = Some AnimateCallback \<longrightarrow> animationId s = Some i) \<and>
     (isDestroyed s \<longrightarrow> animationId s = None) \<and>
     (\<not> isPageVisible s \<longrightarrow> animationId s = None) \<and>
     animationId s \<noteq> Some 0"

definition singleFlight :: "GalaxySystem \<Rightarrow> bool" where
  "singleFlight s \<longleftrightarrow>
     (\<forall>i j a b. frames s i = Some (UpdateSizeCallback a) \<and>
        frames s j = Some (UpdateSizeCallback b) \<longrightarrow> i = j) \<and>
     (\<forall>i a. frames s i = Some (UpdateSizeCallback a) \<longrightarrow> updateSizePending s)"

definition attached :: "GalaxySystem \<Rightarrow> bool" where
  "attached s \<longleftrightarrow>
     (ResizeListener \<in> listeners s \<longrightarrow> resizeHandler s) \<and>
     (OrientationListener \<in> listeners s \<longrightarrow> orientationHandler s) \<and>
     (VisibilityListener \<in> listeners s \<longrightarrow> visibilityHandler s) \<and>
     (observerConnected s \<longrightarrow> resizeObserver s)"

definition torn :: "GalaxySystem \<Rightarrow> bool" where
  "torn s \<longleftrightarrow>
     isDestroyed s \<and> animationId s = None \<and> \<not> resizeObserver s \<and> \<not> observerConnected s \<and>
     \<not> resizeHandler s \<and> \<not> orientationHandler s \<and> \<not> visibilityHandler s \<and>
     listeners s = {} \<and> resizeTimeout s = None \<and> galaxyGroup s = None \<and> particles s = []"

definition lifecycle :: "GalaxySystem \<Rightarrow> bool" where
  "lifecycle s \<longleftrightarrow> (if isDestroyed s then torn s else galaxyGroup s \<noteq> None)"

definition particlesSound :: "GalaxySystem \<Rightarrow> bool" where
  "particlesSound s \<longleftrightarrow>
     (\<forall>p \<in> set (particles s).
        orbitalSpeed p = (1 / 2) / sqrt (radius p + 1) \<and>
        mapTexture (material (sprite p)) \<noteq> None)"

subsection \<open>Example hosts and random sources\<close>

definition bareHost :: host where
  "bareHost = \<lparr>innerWidth = 0, innerHeight = 768, isMobileUA = False, devicePixelRatio = 1,
      parentRect = None, canvasRect = (0, 0), clientWidth = 0, clientHeight = 0,
      documentHidden = False, hasResizeObserver = True, dateNow = 0\<rparr>"

definition thinHost :: host where
  "thinHost = \<lparr>innerWidth = 1280, innerHeight = 720, isMobileUA = False, devicePixelRatio = 1,
      parentRect = Some (3 / 10, 100), canvasRect = (0, 0), clientWidth = 0, clientHeight = 0,
      documentHidden = False, hasResizeObserver = True, dateNow = 0\<rparr>"

text \<open>A random source whose every draw is one quarter.\<close>

definition quarterRandom :: "nat \<Rightarrow> real" where
  "quarterRandom k = 1 / 4"

text \<open>A desktop window, 1920 by 1080, the canvas filling its parent.\<close>

definition wideHost :: host where
  "wideHost = \<lparr>innerWidth = 1920, innerHeight = 1080, isMobileUA = False, devicePixelRatio = 1,
      parentRect = Some (1920, 1080), canvasRect = (1920, 1080), clientWidth = 1920,
      clientHeight = 1080, documentHidden = False, hasResizeObserver = True, dateNow = 0\<rparr>"

text \<open>
  A random source whose every draw gives the density sample that puts a desktop particle
  at radius 5.
\<close>

definition fiveRandom :: "nat \<Rightarrow> real" where
  "fiveRandom k = (1 / 4) powr (2 / 5)"

text \<open>
  A window resize whose debounce timer (handle 1) runs, so that a size update is pending
  (frame handle 2), followed by \<open>destroy()\<close>.
\<close>

definition resizeThenDestroy :: "(host \<times> event) list" where
  "resizeThenDestroy = [(wideHost, WindowResize), (wideHost, TimerFires 1), (wideHost, DestroyCall)]"

text \<open>
  The three triggers at once: their debounce timers (handles 1, 2 and 3) run in some order
  and then the frame of the size update (handle 2; handle 1 is the animation frame).
\<close>

definition tripleTrigger :: "(host \<times> event) list" where
  "tripleTrigger =
     [(wideHost, WindowResize), (wideHost, OrientationChange), (wideHost, ResizeObserved),
      (wideHost, TimerFires 1), (wideHost, TimerFires 3), (wideHost, TimerFires 2),
      (wideHost, FrameFires 2)]"



text \<open>
  The window after a rotation; and three triggers at once whose short timers (handles 1
  and 3) run first, then the frame of their size update (handle 2), then the orientation
  timer (handle 2) and the frame of the size update it schedules (handle 3), the canvas
  rotated by then.
\<close>

definition rotatedHost :: host where
  "rotatedHost = \<lparr>innerWidth = 1080, innerHeight = 1920, isMobileUA = False, devicePixelRatio = 1,
      parentRect = Some (1080, 1920), canvasRect = (1080, 1920), clientWidth = 1080,
      clientHeight = 1920, documentHidden = False, hasResizeObserver = True, dateNow = 0\<rparr>"

definition rotationBurst :: "(host \<times> event) list" where
  "rotationBurst =
     [(wideHost, WindowResize), (wideHost, OrientationChange), (wideHost, ResizeObserved),
      (wideHost, TimerFires 1), (wideHost, TimerFires 3), (wideHost, FrameFires 2),
      (rotatedHost, TimerFires 2), (rotatedHost, FrameFires 3)]"

section \<open>Resolving the canvas size\<close>

lemma Math_round_of_int: "Math_round (of_int n) = n"
  by (simp add: Math_round_def)

lemma Math_round_zero_iff: "0 < v \<Longrightarrow> Math_round v = 0 \<longleftrightarrow> v < 1 / 2"
  unfolding Math_round_def by linarith

lemma getCanvasSize_parent:
  "parentRect h = Some r \<Longrightarrow> fst r > 0 \<Longrightarrow> snd r > 0 \<Longrightarrow>
   getCanvasSize h = (Math_round (fst r), Math_round (snd r))"
  by (simp add: getCanvasSize_def Let_def)

lemma getCanvasSize_canvas:
  "(case parentRect h of None \<Rightarrow> True | Some r \<Rightarrow> \<not> (fst r > 0 \<and> snd r > 0)) \<Longrightarrow>
   fst (canvasRect h) > 0 \<Longrightarrow> snd (canvasRect h) > 0 \<Longrightarrow>
   getCanvasSize h = (Math_round (fst (canvasRect h)), Math_round (snd (canvasRect h)))"
  by (auto simp: getCanvasSize_def Let_def split: option.splits)

lemma getCanvasSize_client:
  "(case parentRect h of None \<Rightarrow> True | Some r \<Rightarrow> \<not> (fst r > 0 \<and> snd r > 0)) \<Longrightarrow>
   \<not> (fst (canvasRect h) > 0 \<and> snd (canvasRect h) > 0) \<Longrightarrow>
   clientWidth h > 0 \<Longrightarrow> clientHeight h > 0 \<Longrightarrow>
   getCanvasSize h = (clientWidth h, clientHeight h)"
  by (auto simp: getCanvasSize_def Let_def Math_round_of_int split: option.splits)

lemma getCanvasSize_window:
  "(case parentRect h of None \<Rightarrow> True | Some r \<Rightarrow> \<not> (fst r > 0 \<and> snd r > 0)) \<Longrightarrow>
   \<not> (fst (canvasRect h) > 0 \<and> snd (canvasRect h) > 0) \<Longrightarrow>
   \<not> (clientWidth h > 0 \<and> clientHeight h > 0) \<Longrightarrow>
   getCanvasSize h = (orElse (innerWidth h) 1920, orElse (innerHeight h) 1080)"
  by (auto simp: getCanvasSize_def Let_def Math_round_of_int split: option.splits)

text \<open>
  Claim C10. \<open>getCanvasSize\<close> always returns a size. When the parent's bounding box, the
  canvas's bounding box and the canvas's client box each fail the test "width and height
  positive", the result is the rounded window inner size with 1920 put for a width of 0 and
  1080 for a height of 0, and neither dimension of it is 0. A result with a zero dimension
  therefore comes from a bounding box (the parent's, or the canvas's when the parent's is
  not used) that passed the test with a dimension under one half, which rounds to 0.
\<close>

theorem getCanvasSize_last_resort:
  "(\<exists>width height. getCanvasSize h = (width, height)) \<and>
   ((case parentRect h of None \<Rightarrow> True | Some r \<Rightarrow> \<not> (fst r > 0 \<and> snd r > 0)) \<and>
    \<not> (fst (canvasRect h) > 0 \<and> snd (canvasRect h) > 0) \<and>
    \<not> (clientWidth h > 0 \<and> clientHeight h > 0) \<longrightarrow>
      getCanvasSize h =
        (Math_round (of_int (if innerWidth h = 0 then 1920 else innerWidth h)),
         Math_round (of_int (if innerHeight h = 0 then 1080 else innerHeight h))) \<and>
      fst (getCanvasSize h) = (if innerWidth h = 0 then 1920 else innerWidth h) \<and>
      snd (getCanvasSize h) = (if innerHeight h = 0 then 1080 else innerHeight h) \<and>
      fst (getCanvasSize h) \<noteq> 0 \<and> snd (getCanvasSize h) \<noteq> 0) \<and>
   (fst (getCanvasSize h) = 0 \<or> snd (getCanvasSize h) = 0 \<longrightarrow>
      (\<exists>r. parentRect h = Some r \<and> fst r > 0 \<and> snd r > 0 \<and> (fst r < 1 / 2 \<or> snd r < 1 / 2) \<and>
           getCanvasSize h = (Math_round (fst r), Math_round (snd r))) \<or>
      ((case parentRect h of None \<Rightarrow> True | Some r \<Rightarrow> \<not> (fst r > 0 \<and> snd r > 0)) \<and>
       fst (canvasRect h) > 0 \<and> snd (canvasRect h) > 0 \<and>
       (fst (canvasRect h) < 1 / 2 \<or> snd (canvasRect h) < 1 / 2) \<and>
       getCanvasSize h = (Math_round (fst (canvasRect h)), Math_round (snd (canvasRect h)))))"
proof (intro conjI impI)
  show "\<exists>width height. getCanvasSize h = (width, height)"
    by (cases "getCanvasSize h") simp
next
  assume a: "(case parentRect h of None \<Rightarrow> True | Some r \<Rightarrow> \<not> (fst r > 0 \<and> snd r > 0)) \<and>
    \<not> (fst (canvasRect h) > 0 \<and> snd (canvasRect h) > 0) \<and>
    \<not> (clientWidth h > 0 \<and> clientHeight h > 0)"
  then have g: "getCanvasSize h = (orElse (innerWidth h) 1920, orElse (innerHeight h) 1080)"
    by (intro getCanvasSize_window) simp_all
  show "getCanvasSize h =
        (Math_round (of_int (if innerWidth h = 0 then 1920 else innerWidth h)),
         Math_round (of_int (if innerHeight h = 0 then 1080 else innerHeight h)))"
    unfolding g Math_round_of_int orElse_def by (rule refl)
  show "fst (getCanvasSize h) = (if innerWidth h = 0 then 1920 else innerWidth h)"
    unfolding g orElse_def by simp
  show "snd (getCanvasSize h) = (if innerHeight h = 0 then 1080 else innerHeight h)"
    unfolding g orElse_def by simp
  show "fst (getCanvasSize h) \<noteq> 0"
    unfolding g orElse_def by simp
  show "snd (getCanvasSize h) \<noteq> 0"
    unfolding g orElse_def by simp
next
  assume z: "fst (getCanvasSize h) = 0 \<or> snd (getCanvasSize h) = 0"
  let ?noParent = "case parentRect h of None \<Rightarrow> True | Some r \<Rightarrow> \<not> (fst r > 0 \<and> snd r > 0)"
  show "(\<exists>r. parentRect h = Some r \<and> fst r > 0 \<and> snd r > 0 \<and> (fst r < 1 / 2 \<or> snd r < 1 / 2) \<and>
           getCanvasSize h = (Math_round (fst r), Math_round (snd r))) \<or>
      (?noParent \<and>
       fst (canvasRect h) > 0 \<and> snd (canvasRect h) > 0 \<and>
       (fst (canvasRect h) < 1 / 2 \<or> snd (canvasRect h) < 1 / 2) \<and>
       getCanvasSize h = (Math_round (fst (canvasRect h)), Math_round (snd (canvasRect h))))"
  proof (cases ?noParent)
    case False
    then obtain r where r: "parentRect h = Some r" "fst r > 0" "snd r > 0"
      by (auto split: option.splits)
    then have g: "getCanvasSize h = (Math_round (fst r), Math_round (snd r))"
      by (rule getCanvasSize_parent)
    with z r have "fst r < 1 / 2 \<or> snd r < 1 / 2"
      by (auto simp: Math_round_zero_iff)
    with r g show ?thesis by blast
  next
    case np: True
    show ?thesis
    proof (cases "fst (canvasRect h) > 0 \<and> snd (canvasRect h) > 0")
      case True
      then have g: "getCanvasSize h = (Math_round (fst (canvasRect h)), Math_round (snd (canvasRect h)))"
        using np by (intro getCanvasSize_canvas) simp_all
      with z True have "fst (canvasRect h) < 1 / 2 \<or> snd (canvasRect h) < 1 / 2"
        by (auto simp: Math_round_zero_iff)
      with np True g show ?thesis by blast
    next
      case nc: False
      show ?thesis
      proof (cases "clientWidth h > 0 \<and> clientHeight h > 0")
        case True
        then have "getCanvasSize h = (clientWidth h, clientHeight h)"
          using np nc by (intro getCanvasSize_client) simp_all
        with z True show ?thesis by simp
      next
        case False
        then have "getCanvasSize h = (orElse (innerWidth h) 1920, orElse (innerHeight h) 1080)"
          using np nc by (intro getCanvasSize_window) simp_all
        with z show ?thesis by (simp add: orElse_def split: if_splits)
      qed
    qed
  qed
qed

theorem getCanvasSize_last_resort_witness:
  "getCanvasSize bareHost = (1920, 768) \<and> getCanvasSize thinHost = (0, 100)"
  using getCanvasSize_last_resort [of bareHost] getCanvasSize_last_resort [of thinHost]
  by (simp add: bareHost_def thinHost_def Math_round_def getCanvasSize_def orElse_def)

section \<open>Generating the particle field\<close>

lemma createLoop_eq:
  "createLoop device random n i ps = ps @ map (createParticle device random) [i..<n]"
proof (induction device random n i ps rule: createLoop.induct)
  case (1 device random particleCount i ps)
  show ?case
  proof (cases "i < particleCount")
    case True
    then have "ps @ map (createParticle device random) [i..<particleCount] =
      (ps @ [createParticle device random i]) @ map (createParticle device random) [Suc i..<particleCount]"
      by (simp add: upt_conv_Cons)
    with True "1.IH" show ?thesis
      by (subst createLoop.simps) simp
  next
    case False
    then show ?thesis
      by (subst createLoop.simps) simp
  qed
qed

lemma createLoop_all: "createLoop device random n 0 [] = map (createParticle device random) [0..<n]"
  by (simp add: createLoop_eq)

lemma length_createLoop: "length (createLoop device random n 0 []) = n"
  by (simp add: createLoop_all)

lemma nth_createLoop:
  "i < n \<Longrightarrow> createLoop device random n 0 [] ! i = createParticle device random i"
  by (simp add: createLoop_all)

lemma radius_createParticle:
  "radius (createParticle device random i) =
     random (9 * i + 1) powr (if device = Mobile then 3 else 5 / 2) * RADIUS"
  by (simp add: createParticle_def Let_def Math_pow_def)

lemma unit_powr_bounds:
  assumes "0 \<le> u" "u < 1" "0 < p"
  shows "0 \<le> u powr p \<and> u powr p < (1::real)"
proof -
  have "u powr p < 1 powr p"
    using assms by (intro powr_less_mono2) simp_all
  then show ?thesis by simp
qed

lemma particles_createGalaxy:
  "particles (createGalaxy h random s) =
     createLoop (deviceType h) random (optimizedParticleCount h) 0 []"
  by (simp add: createGalaxy_def Let_def emit_def)

lemma branchAngle_createParticle:
  "branchAngle (createParticle device random i) = (real (i mod 4) / 4) * (2 * pi)"
  by (simp add: createParticle_def Let_def BRANCHES_def)

lemma arm_angle_eq_iff:
  assumes "a < 4" "b < 4"
  shows "(real a / 4) * (2 * pi) = (real b / 4) * (2 * pi) \<longleftrightarrow> a = (b::nat)"
proof -
  have "pi \<noteq> 0" by simp
  then show ?thesis by simp
qed

lemma count_residue:
  "arm < 4 \<Longrightarrow>
   length (filter (\<lambda>i. i mod 4 = arm) [0..<n]) = n div 4 + (if arm < n mod 4 then 1 else 0)"
proof (induction n)
  case 0
  then show ?case by simp
next
  case (Suc n)
  have "n mod 4 < 4" by simp
  with Suc show ?case
    by (simp add: mod_Suc div_Suc)
qed

lemma count_arm:
  assumes "arm < 4"
  shows "length (filter (\<lambda>p. branchAngle p = (real arm / 4) * (2 * pi))
           (createLoop device random n 0 [])) =
         n div 4 + (if arm < n mod 4 then 1 else 0)"
proof -
  have "(\<lambda>i. branchAngle (createParticle device random i) = (real arm / 4) * (2 * pi)) =
        (\<lambda>i. i mod 4 = arm)"
    using assms by (intro ext) (simp only: branchAngle_createParticle arm_angle_eq_iff mod_less_divisor zero_less_numeral)
  then show ?thesis
    using assms by (simp add: createLoop_all filter_map o_def count_residue)
qed

lemma floor_quarter: "\<lfloor>real n / 4\<rfloor> = int (n div 4)"
  using floor_divide_of_nat_eq [of n 4, where ?'a = real] by simp

lemma ceiling_quarter:
  "\<lceil>real n / 4\<rceil> = int (n div 4) + (if n mod 4 = 0 then 0 else 1)"
proof -
  have "n = 4 * (n div 4) + n mod 4" by simp
  then have "real n = 4 * real (n div 4) + real (n mod 4)"
    by (metis of_nat_add of_nat_mult of_nat_numeral)
  moreover have "n mod 4 < 4" by simp
  ultimately show ?thesis
    by (simp add: ceiling_eq_iff split: if_splits)
qed

text \<open>
  Claim C5. Every particle the loop of \<open>createGalaxy\<close> generates has
  \<open>radius = u powr p * RADIUS\<close>, where \<open>u\<close> is the density sample drawn for it (the
  second of the nine draws of its pass), \<open>p\<close> is 3 on the mobile tier and 2.5 otherwise, and
  \<open>RADIUS\<close> is 20; the draws being in \<open>[0, 1)\<close>, the radius lies in \<open>[0, RADIUS)\<close>. The
  particles of \<open>createGalaxy\<close> are these, for the tier and the count of the host.
\<close>

theorem createGalaxy_orbitalRadius:
  assumes draws: "\<forall>k. 0 \<le> random k \<and> random k < 1"
    and i: "i < particleCount"
  shows "let particle = createLoop device random particleCount 0 [] ! i;
             u = random (9 * i + 1);
             densityPower = (if device = Mobile then 3 else 5 / 2)
         in radius particle = u powr densityPower * RADIUS \<and> RADIUS = 20 \<and>
            0 \<le> radius particle \<and> radius particle < RADIUS \<and>
            (i < optimizedParticleCount h \<and> device = deviceType h \<and>
             particleCount = optimizedParticleCount h \<longrightarrow>
               particles (createGalaxy h random s) ! i = particle)"
proof -
  let ?u = "random (9 * i + 1)"
  let ?p = "if device = Mobile then 3 else 5 / 2 :: real"
  have r: "radius (createLoop device random particleCount 0 [] ! i) = ?u powr ?p * RADIUS"
    using i by (simp only: nth_createLoop radius_createParticle)
  have "0 \<le> ?u" "?u < 1" using draws by simp_all
  moreover have "0 < ?p" by simp
  ultimately have b: "0 \<le> ?u powr ?p \<and> ?u powr ?p < 1"
    by (rule unit_powr_bounds)
  have R: "RADIUS = 20" by (simp add: RADIUS_def)
  from b have "0 \<le> ?u powr ?p * RADIUS" "?u powr ?p * RADIUS < RADIUS"
    unfolding R by simp_all
  with r R show ?thesis
    by (simp add: Let_def particles_createGalaxy)
qed

theorem createGalaxy_orbitalRadius_witness:
  "(\<forall>k. 0 \<le> quarterRandom k \<and> quarterRandom k < 1) \<and> (0::nat) < 8000 \<and>
   radius (createLoop Desktop quarterRandom 8000 0 [] ! 0) = (1 / 4) powr (5 / 2) * 20 \<and>
   radius (createLoop Desktop quarterRandom 8000 0 [] ! 0) < 20 \<and>
   particles (createGalaxy wideHost quarterRandom initialSystem) ! 0 =
     createLoop Desktop quarterRandom 8000 0 [] ! 0"
proof -
  have d: "\<forall>k. 0 \<le> quarterRandom k \<and> quarterRandom k < 1"
    by (simp add: quarterRandom_def)
  have w: "deviceType wideHost = Desktop" "optimizedParticleCount wideHost = 8000"
    by (simp_all add: optimizedParticleCount_def deviceType_def wideHost_def PARTICLES_COUNT_def)
  have i: "(0::nat) < 8000" by simp
  have q: "quarterRandom (Suc 0) = 1 / 4" by (simp add: quarterRandom_def)
  show ?thesis
    using createGalaxy_orbitalRadius [OF d i, of Desktop wideHost initialSystem] d w
    by (simp add: Let_def q RADIUS_def)
qed

section \<open>What every handler does to every field\<close>

text \<open>
  For each function of the class, the value of every field after the call in terms of the
  state before it. The later proofs use these equations and never unfold a handler again.
\<close>

lemmas host_calls = emit_def requestAnimationFrame_def cancelAnimationFrame_def
  setTimeout_def clearTimeout_def

lemma updateSize_fields [simp]:
  "camera (updateSize src s) = camera s"
  "galaxyGroup (updateSize src s) = galaxyGroup s"
  "particles (updateSize src s) = particles s"
  "animationId (updateSize src s) = animationId s"
  "isDestroyed (updateSize src s) = isDestroyed s"
  "time (updateSize src s) = time s"
  "resizeHandler (updateSize src s) = resizeHandler s"
  "orientationHandler (updateSize src s) = orientationHandler s"
  "visibilityHandler (updateSize src s) = visibilityHandler s"
  "resizeTimeout (updateSize src s) = resizeTimeout s"
  "resizeObserver (updateSize src s) = resizeObserver s"
  "renderLogCounter (updateSize src s) = renderLogCounter s"
  "lastRenderLogTime (updateSize src s) = lastRenderLogTime s"
  "lastSize (updateSize src s) = lastSize s"
  "lastDevice (updateSize src s) = lastDevice s"
  "updateSizePending (updateSize src s) = (\<not> isDestroyed s \<or> updateSizePending s)"
  "isPageVisible (updateSize src s) = isPageVisible s"
  "resizeDebounceTimeout (updateSize src s) = resizeDebounceTimeout s"
  "orientationDebounceTimeout (updateSize src s) = orientationDebounceTimeout s"
  "observerDebounceTimeout (updateSize src s) = observerDebounceTimeout s"
  "rendererSize (updateSize src s) = rendererSize s"
  "rendererPixelRatio (updateSize src s) = rendererPixelRatio s"
  "frames (updateSize src s) = (if (isDestroyed s \<or> updateSizePending s) then frames s else
     (frames s)(nextFrame s \<mapsto> UpdateSizeCallback src))"
  "timers (updateSize src s) = timers s"
  "nextFrame (updateSize src s) = (if (isDestroyed s \<or> updateSizePending s) then nextFrame s
     else Suc (nextFrame s))"
  "nextTimer (updateSize src s) = nextTimer s"
  "listeners (updateSize src s) = listeners s"
  "observerConnected (updateSize src s) = observerConnected s"
  "effects (updateSize src s) = effects s @ (if (isDestroyed s \<or> updateSizePending s) then []
     else [RequestAnimationFrame (nextFrame s) (UpdateSizeCallback src)])"
  by (simp_all add: updateSize_def host_calls)

lemma updateSizeFrame_fields [simp]:
  "camera (updateSizeFrame h src s) = (if resizes h s then (camera s)\<lparr>cameraPosition :=
     getCameraPosition h, cameraLookAt := getCameraLookAt h, aspect := Some (real_of_int (fst
     (getCanvasSize h)) / real_of_int (snd (getCanvasSize h))), fov := getCameraFOV h\<rparr> else
     camera s)"
  "galaxyGroup (updateSizeFrame h src s) = galaxyGroup s"
  "particles (updateSizeFrame h src s) = particles s"
  "animationId (updateSizeFrame h src s) = animationId s"
  "isDestroyed (updateSizeFrame h src s) = isDestroyed s"
  "time (updateSizeFrame h src s) = time s"
  "resizeHandler (updateSizeFrame h src s) = resizeHandler s"
  "orientationHandler (updateSizeFrame h src s) = orientationHandler s"
  "visibilityHandler (updateSizeFrame h src s) = visibilityHandler s"
  "resizeTimeout (updateSizeFrame h src s) = (if resizes h s then Some (nextTimer s) else
     resizeTimeout s)"
  "resizeObserver (updateSizeFrame h src s) = resizeObserver s"
  "renderLogCounter (updateSizeFrame h src s) = renderLogCounter s"
  "lastRenderLogTime (updateSizeFrame h src s) = lastRenderLogTime s"
  "lastSize (updateSizeFrame h src s) = (if resizes h s then Some (getCanvasSize h) else
     lastSize s)"
  "lastDevice (updateSizeFrame h src s) = (if resizes h s then Some (deviceType h) else
     lastDevice s)"
  "updateSizePending (updateSizeFrame h src s) = False"
  "isPageVisible (updateSizeFrame h src s) = isPageVisible s"
  "resizeDebounceTimeout (updateSizeFrame h src s) = resizeDebounceTimeout s"
  "orientationDebounceTimeout (updateSizeFrame h src s) = orientationDebounceTimeout s"
  "observerDebounceTimeout (updateSizeFrame h src s) = observerDebounceTimeout s"
  "rendererSize (updateSizeFrame h src s) = (if resizes h s then getCanvasSize h else
     rendererSize s)"
  "rendererPixelRatio (updateSizeFrame h src s) = rendererPixelRatio s"
  "frames (updateSizeFrame h src s) = frames s"
  "timers (updateSizeFrame h src s) = (if resizes h s then (case resizeTimeout s of None \<Rightarrow>
     timers s | Some handle \<Rightarrow> (timers s)(handle := None))(nextTimer s \<mapsto> PixelRatioUpdate) else
     timers s)"
  "nextFrame (updateSizeFrame h src s) = nextFrame s"
  "nextTimer (updateSizeFrame h src s) = (if resizes h s then Suc (nextTimer s) else nextTimer
     s)"
  "listeners (updateSizeFrame h src s) = listeners s"
  "observerConnected (updateSizeFrame h src s) = observerConnected s"
  "effects (updateSizeFrame h src s) = effects s @ (if resizes h s then [CameraPositionSet
     (getCameraPosition h), CameraLookAt (getCameraLookAt h), CameraUpdateProjectionMatrix,
     RendererSetSize (fst (getCanvasSize h)) (snd (getCanvasSize h)) False] @ (case galaxyGroup
     s of None \<Rightarrow> [] | Some g \<Rightarrow> [Render]) @ (case resizeTimeout s of None \<Rightarrow> [] | Some handle \<Rightarrow>
     [ClearTimeout handle]) @ [SetTimeout (nextTimer s) PixelRatioUpdate 150] else [])"
  by (auto simp add: updateSizeFrame_def resizes_def host_calls Let_def split: option.splits prod.splits)

lemma pixelRatioTimer_fields [simp]:
  "camera (pixelRatioTimer h s) = camera s"
  "galaxyGroup (pixelRatioTimer h s) = galaxyGroup s"
  "particles (pixelRatioTimer h s) = particles s"
  "animationId (pixelRatioTimer h s) = animationId s"
  "isDestroyed (pixelRatioTimer h s) = isDestroyed s"
  "time (pixelRatioTimer h s) = time s"
  "resizeHandler (pixelRatioTimer h s) = resizeHandler s"
  "orientationHandler (pixelRatioTimer h s) = orientationHandler s"
  "visibilityHandler (pixelRatioTimer h s) = visibilityHandler s"
  "resizeTimeout (pixelRatioTimer h s) = resizeTimeout s"
  "resizeObserver (pixelRatioTimer h s) = resizeObserver s"
  "renderLogCounter (pixelRatioTimer h s) = renderLogCounter s"
  "lastRenderLogTime (pixelRatioTimer h s) = lastRenderLogTime s"
  "lastSize (pixelRatioTimer h s) = lastSize s"
  "lastDevice (pixelRatioTimer h s) = lastDevice s"
  "updateSizePending (pixelRatioTimer h s) = updateSizePending s"
  "isPageVisible (pixelRatioTimer h s) = isPageVisible s"
  "resizeDebounceTimeout (pixelRatioTimer h s) = resizeDebounceTimeout s"
  "orientationDebounceTimeout (pixelRatioTimer h s) = orientationDebounceTimeout s"
  "observerDebounceTimeout (pixelRatioTimer h s) = observerDebounceTimeout s"
  "rendererSize (pixelRatioTimer h s) = rendererSize s"
  "rendererPixelRatio (pixelRatioTimer h s) = (if isDestroyed s then rendererPixelRatio s else
     optimalPixelRatio h)"
  "frames (pixelRatioTimer h s) = frames s"
  "timers (pixelRatioTimer h s) = timers s"
  "nextFrame (pixelRatioTimer h s) = nextFrame s"
  "nextTimer (pixelRatioTimer h s) = nextTimer s"
  "listeners (pixelRatioTimer h s) = listeners s"
  "observerConnected (pixelRatioTimer h s) = observerConnected s"
  "effects (pixelRatioTimer h s) = effects s @ (if isDestroyed s then [] else
     [RendererSetPixelRatio (optimalPixelRatio h)])"
  by (simp_all add: pixelRatioTimer_def host_calls)

lemma handleResizeEvent_fields [simp]:
  "camera (handleResizeEvent s) = camera s"
  "galaxyGroup (handleResizeEvent s) = galaxyGroup s"
  "particles (handleResizeEvent s) = particles s"
  "animationId (handleResizeEvent s) = animationId s"
  "isDestroyed (handleResizeEvent s) = isDestroyed s"
  "time (handleResizeEvent s) = time s"
  "resizeHandler (handleResizeEvent s) = resizeHandler s"
  "orientationHandler (handleResizeEvent s) = orientationHandler s"
  "visibilityHandler (handleResizeEvent s) = visibilityHandler s"
  "resizeTimeout (handleResizeEvent s) = resizeTimeout s"
  "resizeObserver (handleResizeEvent s) = resizeObserver s"
  "renderLogCounter (handleResizeEvent s) = renderLogCounter s"
  "lastRenderLogTime (handleResizeEvent s) = lastRenderLogTime s"
  "lastSize (handleResizeEvent s) = lastSize s"
  "lastDevice (handleResizeEvent s) = lastDevice s"
  "updateSizePending (handleResizeEvent s) = updateSizePending s"
  "isPageVisible (handleResizeEvent s) = isPageVisible s"
  "resizeDebounceTimeout (handleResizeEvent s) = Some (nextTimer s)"
  "orientationDebounceTimeout (handleResizeEvent s) = orientationDebounceTimeout s"
  "observerDebounceTimeout (handleResizeEvent s) = observerDebounceTimeout s"
  "rendererSize (handleResizeEvent s) = rendererSize s"
  "rendererPixelRatio (handleResizeEvent s) = rendererPixelRatio s"
  "frames (handleResizeEvent s) = frames s"
  "timers (handleResizeEvent s) = (case resizeDebounceTimeout s of None \<Rightarrow> timers s | Some handle
     \<Rightarrow> (timers s)(handle := None))(nextTimer s \<mapsto> ResizeDebounce)"
  "nextFrame (handleResizeEvent s) = nextFrame s"
  "nextTimer (handleResizeEvent s) = Suc (nextTimer s)"
  "listeners (handleResizeEvent s) = listeners s"
  "observerConnected (handleResizeEvent s) = observerConnected s"
  "effects (handleResizeEvent s) = effects s @ (case resizeDebounceTimeout s of None \<Rightarrow> [] | Some
     handle \<Rightarrow> [ClearTimeout handle]) @ [SetTimeout (nextTimer s) ResizeDebounce 16]"
  by (simp_all add: handleResizeEvent_def host_calls Let_def split: option.splits)

lemma handleOrientationChange_fields [simp]:
  "camera (handleOrientationChange s) = camera s"
  "galaxyGroup (handleOrientationChange s) = galaxyGroup s"
  "particles (handleOrientationChange s) = particles s"
  "animationId (handleOrientationChange s) = animationId s"
  "isDestroyed (handleOrientationChange s) = isDestroyed s"
  "time (handleOrientationChange s) = time s"
  "resizeHandler (handleOrientationChange s) = resizeHandler s"
  "orientationHandler (handleOrientationChange s) = orientationHandler s"
  "visibilityHandler (handleOrientationChange s) = visibilityHandler s"
  "resizeTimeout (handleOrientationChange s) = resizeTimeout s"
  "resizeObserver (handleOrientationChange s) = resizeObserver s"
  "renderLogCounter (handleOrientationChange s) = renderLogCounter s"
  "lastRenderLogTime (handleOrientationChange s) = lastRenderLogTime s"
  "lastSize (handleOrientationChange s) = lastSize s"
  "lastDevice (handleOrientationChange s) = lastDevice s"
  "updateSizePending (handleOrientationChange s) = updateSizePending s"
  "isPageVisible (handleOrientationChange s) = isPageVisible s"
  "resizeDebounceTimeout (handleOrientationChange s) = resizeDebounceTimeout s"
  "orientationDebounceTimeout (handleOrientationChange s) = Some (nextTimer s)"
  "observerDebounceTimeout (handleOrientationChange s) = observerDebounceTimeout s"
  "rendererSize (handleOrientationChange s) = rendererSize s"
  "rendererPixelRatio (handleOrientationChange s) = rendererPixelRatio s"
  "frames (handleOrientationChange s) = frames s"
  "timers (handleOrientationChange s) = (case orientationDebounceTimeout s of None \<Rightarrow> timers s |
     Some handle \<Rightarrow> (timers s)(handle := None))(nextTimer s \<mapsto> OrientationDebounce)"
  "nextFrame (handleOrientationChange s) = nextFrame s"
  "nextTimer (handleOrientationChange s) = Suc (nextTimer s)"
  "listeners (handleOrientationChange s) = listeners s"
  "observerConnected (handleOrientationChange s) = observerConnected s"
  "effects (handleOrientationChange s) = effects s @ (case orientationDebounceTimeout s of None
     \<Rightarrow> [] | Some handle \<Rightarrow> [ClearTimeout handle]) @ [SetTimeout (nextTimer s) OrientationDebounce
     150]"
  by (simp_all add: handleOrientationChange_def host_calls Let_def split: option.splits)

lemma observerCallback_fields [simp]:
  "camera (observerCallback s) = camera s"
  "galaxyGroup (observerCallback s) = galaxyGroup s"
  "particles (observerCallback s) = particles s"
  "animationId (observerCallback s) = animationId s"
  "isDestroyed (observerCallback s) = isDestroyed s"
  "time (observerCallback s) = time s"
  "resizeHandler (observerCallback s) = resizeHandler s"
  "orientationHandler (observerCallback s) = orientationHandler s"
  "visibilityHandler (observerCallback s) = visibilityHandler s"
  "resizeTimeout (observerCallback s) = resizeTimeout s"
  "resizeObserver (observerCallback s) = resizeObserver s"
  "renderLogCounter (observerCallback s) = renderLogCounter s"
  "lastRenderLogTime (observerCallback s) = lastRenderLogTime s"
  "lastSize (observerCallback s) = lastSize s"
  "lastDevice (observerCallback s) = lastDevice s"
  "updateSizePending (observerCallback s) = updateSizePending s"
  "isPageVisible (observerCallback s) = isPageVisible s"
  "resizeDebounceTimeout (observerCallback s) = resizeDebounceTimeout s"
  "orientationDebounceTimeout (observerCallback s) = orientationDebounceTimeout s"
  "observerDebounceTimeout (observerCallback s) = Some (nextTimer s)"
  "rendererSize (observerCallback s) = rendererSize s"
  "rendererPixelRatio (observerCallback s) = rendererPixelRatio s"
  "frames (observerCallback s) = frames s"
  "timers (observerCallback s) = (case observerDebounceTimeout s of None \<Rightarrow> timers s | Some
     handle \<Rightarrow> (timers s)(handle := None))(nextTimer s \<mapsto> ObserverDebounce)"
  "nextFrame (observerCallback s) = nextFrame s"
  "nextTimer (observerCallback s) = Suc (nextTimer s)"
  "listeners (observerCallback s) = listeners s"
  "observerConnected (observerCallback s) = observerConnected s"
  "effects (observerCallback s) = effects s @ (case observerDebounceTimeout s of None \<Rightarrow> [] |
     Some handle \<Rightarrow> [ClearTimeout handle]) @ [SetTimeout (nextTimer s) ObserverDebounce 16]"
  by (simp_all add: observerCallback_def host_calls Let_def split: option.splits)

lemma animate_fields [simp]:
  "camera (animate h s) = camera s"
  "galaxyGroup (animate h s) = (if (\<not> isDestroyed s \<and> isPageVisible s) then map_option (\<lambda>g.
     g\<lparr>rotationY := rotationY g + 3 / 100000\<rparr>) (galaxyGroup s) else galaxyGroup s)"
  "particles (animate h s) = (if (\<not> isDestroyed s \<and> isPageVisible s \<and> galaxyGroup s \<noteq> None) then
     map (orbit (time s + 5 / 1000)) (particles s) else particles s)"
  "animationId (animate h s) = (if isDestroyed s then animationId s else if isPageVisible s then
     Some (nextFrame s) else None)"
  "isDestroyed (animate h s) = isDestroyed s"
  "time (animate h s) = (if (\<not> isDestroyed s \<and> isPageVisible s \<and> galaxyGroup s \<noteq> None) then time
     s + 5 / 1000 else time s)"
  "resizeHandler (animate h s) = resizeHandler s"
  "orientationHandler (animate h s) = orientationHandler s"
  "visibilityHandler (animate h s) = visibilityHandler s"
  "resizeTimeout (animate h s) = resizeTimeout s"
  "resizeObserver (animate h s) = resizeObserver s"
  "renderLogCounter (animate h s) = (if (\<not> isDestroyed s \<and> isPageVisible s \<and> galaxyGroup s \<noteq>
     None) then (if dateNow h - lastRenderLogTime s > 5000 then 0 else Suc (renderLogCounter s))
     else renderLogCounter s)"
  "lastRenderLogTime (animate h s) = (if (\<not> isDestroyed s \<and> isPageVisible s \<and> galaxyGroup s \<noteq>
     None) \<and> dateNow h - lastRenderLogTime s > 5000 then dateNow h else lastRenderLogTime s)"
  "lastSize (animate h s) = lastSize s"
  "lastDevice (animate h s) = lastDevice s"
  "updateSizePending (animate h s) = updateSizePending s"
  "isPageVisible (animate h s) = isPageVisible s"
  "resizeDebounceTimeout (animate h s) = resizeDebounceTimeout s"
  "orientationDebounceTimeout (animate h s) = orientationDebounceTimeout s"
  "observerDebounceTimeout (animate h s) = observerDebounceTimeout s"
  "rendererSize (animate h s) = rendererSize s"
  "rendererPixelRatio (animate h s) = rendererPixelRatio s"
  "frames (animate h s) = (if (\<not> isDestroyed s \<and> isPageVisible s) then (frames s)(nextFrame s \<mapsto>
     AnimateCallback) else frames s)"
  "timers (animate h s) = timers s"
  "nextFrame (animate h s) = (if (\<not> isDestroyed s \<and> isPageVisible s) then Suc (nextFrame s) else
     nextFrame s)"
  "nextTimer (animate h s) = nextTimer s"
  "listeners (animate h s) = listeners s"
  "observerConnected (animate h s) = observerConnected s"
  "effects (animate h s) = effects s @ (if (\<not> isDestroyed s \<and> isPageVisible s) then
     [RequestAnimationFrame (nextFrame s) AnimateCallback] else []) @ (if (\<not> isDestroyed s \<and>
     isPageVisible s \<and> galaxyGroup s \<noteq> None) then [Render] else [])"
  by (auto simp add: animate_def host_calls Let_def split: option.splits)

lemma handleVisibilityChange_fields [simp]:
  "camera (handleVisibilityChange h s) = camera s"
  "galaxyGroup (handleVisibilityChange h s) = (if (\<not> documentHidden h \<and> noAnimationId s \<and> \<not>
     isDestroyed s) then map_option (\<lambda>g. g\<lparr>rotationY := rotationY g + 3 / 100000\<rparr>) (galaxyGroup
     s) else galaxyGroup s)"
  "particles (handleVisibilityChange h s) = (if (\<not> documentHidden h \<and> noAnimationId s \<and> \<not>
     isDestroyed s \<and> galaxyGroup s \<noteq> None) then map (orbit (time s + 5 / 1000)) (particles s)
     else particles s)"
  "animationId (handleVisibilityChange h s) = (if documentHidden h then None else if (\<not>
     documentHidden h \<and> noAnimationId s \<and> \<not> isDestroyed s) then Some (nextFrame s) else
     animationId s)"
  "isDestroyed (handleVisibilityChange h s) = isDestroyed s"
  "time (handleVisibilityChange h s) = (if (\<not> documentHidden h \<and> noAnimationId s \<and> \<not> isDestroyed
     s \<and> galaxyGroup s \<noteq> None) then time s + 5 / 1000 else time s)"
  "resizeHandler (handleVisibilityChange h s) = resizeHandler s"
  "orientationHandler (handleVisibilityChange h s) = orientationHandler s"
  "visibilityHandler (handleVisibilityChange h s) = visibilityHandler s"
  "resizeTimeout (handleVisibilityChange h s) = resizeTimeout s"
  "resizeObserver (handleVisibilityChange h s) = resizeObserver s"
  "renderLogCounter (handleVisibilityChange h s) = (if (\<not> documentHidden h \<and> noAnimationId s \<and> \<not>
     isDestroyed s \<and> galaxyGroup s \<noteq> None) then (if dateNow h - lastRenderLogTime s > 5000 then
     0 else Suc (renderLogCounter s)) else renderLogCounter s)"
  "lastRenderLogTime (handleVisibilityChange h s) = (if (\<not> documentHidden h \<and> noAnimationId s \<and>
     \<not> isDestroyed s \<and> galaxyGroup s \<noteq> None) \<and> dateNow h - lastRenderLogTime s > 5000 then
     dateNow h else lastRenderLogTime s)"
  "lastSize (handleVisibilityChange h s) = lastSize s"
  "lastDevice (handleVisibilityChange h s) = lastDevice s"
  "updateSizePending (handleVisibilityChange h s) = updateSizePending s"
  "isPageVisible (handleVisibilityChange h s) = (\<not> documentHidden h)"
  "resizeDebounceTimeout (handleVisibilityChange h s) = resizeDebounceTimeout s"
  "orientationDebounceTimeout (handleVisibilityChange h s) = orientationDebounceTimeout s"
  "observerDebounceTimeout (handleVisibilityChange h s) = observerDebounceTimeout s"
  "rendererSize (handleVisibilityChange h s) = rendererSize s"
  "rendererPixelRatio (handleVisibilityChange h s) = rendererPixelRatio s"
  "frames (handleVisibilityChange h s) = (if documentHidden h then (case animationId s of None \<Rightarrow>
     frames s | Some handle \<Rightarrow> (frames s)(handle := None)) else if (\<not> documentHidden h \<and>
     noAnimationId s \<and> \<not> isDestroyed s) then (frames s)(nextFrame s \<mapsto> AnimateCallback) else
     frames s)"
  "timers (handleVisibilityChange h s) = timers s"
  "nextFrame (handleVisibilityChange h s) = (if (\<not> documentHidden h \<and> noAnimationId s \<and> \<not>
     isDestroyed s) then Suc (nextFrame s) else nextFrame s)"
  "nextTimer (handleVisibilityChange h s) = nextTimer s"
  "listeners (handleVisibilityChange h s) = listeners s"
  "observerConnected (handleVisibilityChange h s) = observerConnected s"
  "effects (handleVisibilityChange h s) = effects s @ (if documentHidden h then (case
     animationId s of None \<Rightarrow> [] | Some handle \<Rightarrow> [CancelAnimationFrame handle]) else if (\<not>
     documentHidden h \<and> noAnimationId s \<and> \<not> isDestroyed s) then [RequestAnimationFrame
     (nextFrame s) AnimateCallback] @ (if galaxyGroup s \<noteq> None then [Render] else []) else [])"
  by (auto simp add: handleVisibilityChange_def noAnimationId_def host_calls Let_def split: option.splits)

lemma cancelAnimation_fields [simp]:
  "camera (cancelAnimation s) = camera s"
  "galaxyGroup (cancelAnimation s) = galaxyGroup s"
  "particles (cancelAnimation s) = particles s"
  "animationId (cancelAnimation s) = None"
  "isDestroyed (cancelAnimation s) = isDestroyed s"
  "time (cancelAnimation s) = time s"
  "resizeHandler (cancelAnimation s) = resizeHandler s"
  "orientationHandler (cancelAnimation s) = orientationHandler s"
  "visibilityHandler (cancelAnimation s) = visibilityHandler s"
  "resizeTimeout (cancelAnimation s) = resizeTimeout s"
  "resizeObserver (cancelAnimation s) = resizeObserver s"
  "renderLogCounter (cancelAnimation s) = renderLogCounter s"
  "lastRenderLogTime (cancelAnimation s) = lastRenderLogTime s"
  "lastSize (cancelAnimation s) = lastSize s"
  "lastDevice (cancelAnimation s) = lastDevice s"
  "updateSizePending (cancelAnimation s) = updateSizePending s"
  "isPageVisible (cancelAnimation s) = isPageVisible s"
  "resizeDebounceTimeout (cancelAnimation s) = resizeDebounceTimeout s"
  "orientationDebounceTimeout (cancelAnimation s) = orientationDebounceTimeout s"
  "observerDebounceTimeout (cancelAnimation s) = observerDebounceTimeout s"
  "rendererSize (cancelAnimation s) = rendererSize s"
  "rendererPixelRatio (cancelAnimation s) = rendererPixelRatio s"
  "frames (cancelAnimation s) = (case animationId s of None \<Rightarrow> frames s | Some handle \<Rightarrow> (frames
     s)(handle := None))"
  "timers (cancelAnimation s) = timers s"
  "nextFrame (cancelAnimation s) = nextFrame s"
  "nextTimer (cancelAnimation s) = nextTimer s"
  "listeners (cancelAnimation s) = listeners s"
  "observerConnected (cancelAnimation s) = observerConnected s"
  "effects (cancelAnimation s) = effects s @ (case animationId s of None \<Rightarrow> [] | Some handle \<Rightarrow>
     [CancelAnimationFrame handle])"
  by (simp_all add: cancelAnimation_def host_calls split: option.splits)

lemma disconnectObserver_fields [simp]:
  "camera (disconnectObserver s) = camera s"
  "galaxyGroup (disconnectObserver s) = galaxyGroup s"
  "particles (disconnectObserver s) = particles s"
  "animationId (disconnectObserver s) = animationId s"
  "isDestroyed (disconnectObserver s) = isDestroyed s"
  "time (disconnectObserver s) = time s"
  "resizeHandler (disconnectObserver s) = resizeHandler s"
  "orientationHandler (disconnectObserver s) = orientationHandler s"
  "visibilityHandler (disconnectObserver s) = visibilityHandler s"
  "resizeTimeout (disconnectObserver s) = resizeTimeout s"
  "resizeObserver (disconnectObserver s) = False"
  "renderLogCounter (disconnectObserver s) = renderLogCounter s"
  "lastRenderLogTime (disconnectObserver s) = lastRenderLogTime s"
  "lastSize (disconnectObserver s) = lastSize s"
  "lastDevice (disconnectObserver s) = lastDevice s"
  "updateSizePending (disconnectObserver s) = updateSizePending s"
  "isPageVisible (disconnectObserver s) = isPageVisible s"
  "resizeDebounceTimeout (disconnectObserver s) = resizeDebounceTimeout s"
  "orientationDebounceTimeout (disconnectObserver s) = orientationDebounceTimeout s"
  "observerDebounceTimeout (disconnectObserver s) = observerDebounceTimeout s"
  "rendererSize (disconnectObserver s) = rendererSize s"
  "rendererPixelRatio (disconnectObserver s) = rendererPixelRatio s"
  "frames (disconnectObserver s) = frames s"
  "timers (disconnectObserver s) = timers s"
  "nextFrame (disconnectObserver s) = nextFrame s"
  "nextTimer (disconnectObserver s) = nextTimer s"
  "listeners (disconnectObserver s) = listeners s"
  "observerConnected (disconnectObserver s) = (observerConnected s \<and> \<not> resizeObserver s)"
  "effects (disconnectObserver s) = effects s @ (if resizeObserver s then [ObserverDisconnect]
     else [])"
  by (simp_all add: disconnectObserver_def host_calls)

lemma removeResizeListener_fields [simp]:
  "camera (removeResizeListener s) = camera s"
  "galaxyGroup (removeResizeListener s) = galaxyGroup s"
  "particles (removeResizeListener s) = particles s"
  "animationId (removeResizeListener s) = animationId s"
  "isDestroyed (removeResizeListener s) = isDestroyed s"
  "time (removeResizeListener s) = time s"
  "resizeHandler (removeResizeListener s) = False"
  "orientationHandler (removeResizeListener s) = orientationHandler s"
  "visibilityHandler (removeResizeListener s) = visibilityHandler s"
  "resizeTimeout (removeResizeListener s) = resizeTimeout s"
  "resizeObserver (removeResizeListener s) = resizeObserver s"
  "renderLogCounter (removeResizeListener s) = renderLogCounter s"
  "lastRenderLogTime (removeResizeListener s) = lastRenderLogTime s"
  "lastSize (removeResizeListener s) = lastSize s"
  "lastDevice (removeResizeListener s) = lastDevice s"
  "updateSizePending (removeResizeListener s) = updateSizePending s"
  "isPageVisible (removeResizeListener s) = isPageVisible s"
  "resizeDebounceTimeout (removeResizeListener s) = resizeDebounceTimeout s"
  "orientationDebounceTimeout (removeResizeListener s) = orientationDebounceTimeout s"
  "observerDebounceTimeout (removeResizeListener s) = observerDebounceTimeout s"
  "rendererSize (removeResizeListener s) = rendererSize s"
  "rendererPixelRatio (removeResizeListener s) = rendererPixelRatio s"
  "frames (removeResizeListener s) = frames s"
  "timers (removeResizeListener s) = timers s"
  "nextFrame (removeResizeListener s) = nextFrame s"
  "nextTimer (removeResizeListener s) = nextTimer s"
  "listeners (removeResizeListener s) = (if resizeHandler s then listeners s - {ResizeListener}
     else listeners s)"
  "observerConnected (removeResizeListener s) = observerConnected s"
  "effects (removeResizeListener s) = effects s @ (if resizeHandler s then [RemoveEventListener
     ResizeListener] else [])"
  by (simp_all add: removeResizeListener_def host_calls)

lemma removeOrientationListener_fields [simp]:
  "camera (removeOrientationListener s) = camera s"
  "galaxyGroup (removeOrientationListener s) = galaxyGroup s"
  "particles (removeOrientationListener s) = particles s"
  "animationId (removeOrientationListener s) = animationId s"
  "isDestroyed (removeOrientationListener s) = isDestroyed s"
  "time (removeOrientationListener s) = time s"
  "resizeHandler (removeOrientationListener s) = resizeHandler s"
  "orientationHandler (removeOrientationListener s) = False"
  "visibilityHandler (removeOrientationListener s) = visibilityHandler s"
  "resizeTimeout (removeOrientationListener s) = resizeTimeout s"
  "resizeObserver (removeOrientationListener s) = resizeObserver s"
  "renderLogCounter (removeOrientationListener s) = renderLogCounter s"
  "lastRenderLogTime (removeOrientationListener s) = lastRenderLogTime s"
  "lastSize (removeOrientationListener s) = lastSize s"
  "lastDevice (removeOrientationListener s) = lastDevice s"
  "updateSizePending (removeOrientationListener s) = updateSizePending s"
  "isPageVisible (removeOrientationListener s) = isPageVisible s"
  "resizeDebounceTimeout (removeOrientationListener s) = resizeDebounceTimeout s"
  "orientationDebounceTimeout (removeOrientationListener s) = orientationDebounceTimeout s"
  "observerDebounceTimeout (removeOrientationListener s) = observerDebounceTimeout s"
  "rendererSize (removeOrientationListener s) = rendererSize s"
  "rendererPixelRatio (removeOrientationListener s) = rendererPixelRatio s"
  "frames (removeOrientationListener s) = frames s"
  "timers (removeOrientationListener s) = timers s"
  "nextFrame (removeOrientationListener s) = nextFrame s"
  "nextTimer (removeOrientationListener s) = nextTimer s"
  "listeners (removeOrientationListener s) = (if orientationHandler s then listeners s -
     {OrientationListener} else listeners s)"
  "observerConnected (removeOrientationListener s) = observerConnected s"
  "effects (removeOrientationListener s) = effects s @ (if orientationHandler s then
     [RemoveEventListener OrientationListener] else [])"
  by (simp_all add: removeOrientationListener_def host_calls)

lemma removeVisibilityListener_fields [simp]:
  "camera (removeVisibilityListener s) = camera s"
  "galaxyGroup (removeVisibilityListener s) = galaxyGroup s"
  "particles (removeVisibilityListener s) = particles s"
  "animationId (removeVisibilityListener s) = animationId s"
  "isDestroyed (removeVisibilityListener s) = isDestroyed s"
  "time (removeVisibilityListener s) = time s"
  "resizeHandler (removeVisibilityListener s) = resizeHandler s"
  "orientationHandler (removeVisibilityListener s) = orientationHandler s"
  "visibilityHandler (removeVisibilityListener s) = False"
  "resizeTimeout (removeVisibilityListener s) = resizeTimeout s"
  "resizeObserver (removeVisibilityListener s) = resizeObserver s"
  "renderLogCounter (removeVisibilityListener s) = renderLogCounter s"
  "lastRenderLogTime (removeVisibilityListener s) = lastRenderLogTime s"
  "lastSize (removeVisibilityListener s) = lastSize s"
  "lastDevice (removeVisibilityListener s) = lastDevice s"
  "updateSizePending (removeVisibilityListener s) = updateSizePending s"
  "isPageVisible (removeVisibilityListener s) = isPageVisible s"
  "resizeDebounceTimeout (removeVisibilityListener s) = resizeDebounceTimeout s"
  "orientationDebounceTimeout (removeVisibilityListener s) = orientationDebounceTimeout s"
  "observerDebounceTimeout (removeVisibilityListener s) = observerDebounceTimeout s"
  "rendererSize (removeVisibilityListener s) = rendererSize s"
  "rendererPixelRatio (removeVisibilityListener s) = rendererPixelRatio s"
  "frames (removeVisibilityListener s) = frames s"
  "timers (removeVisibilityListener s) = timers s"
  "nextFrame (removeVisibilityListener s) = nextFrame s"
  "nextTimer (removeVisibilityListener s) = nextTimer s"
  "listeners (removeVisibilityListener s) = (if visibilityHandler s then listeners s -
     {VisibilityListener} else listeners s)"
  "observerConnected (removeVisibilityListener s) = observerConnected s"
  "effects (removeVisibilityListener s) = effects s @ (if visibilityHandler s then
     [RemoveEventListener VisibilityListener] else [])"
  by (simp_all add: removeVisibilityListener_def host_calls)

lemma clearResizeTimeout_fields [simp]:
  "camera (clearResizeTimeout s) = camera s"
  "galaxyGroup (clearResizeTimeout s) = galaxyGroup s"
  "particles (clearResizeTimeout s) = particles s"
  "animationId (clearResizeTimeout s) = animationId s"
  "isDestroyed (clearResizeTimeout s) = isDestroyed s"
  "time (clearResizeTimeout s) = time s"
  "resizeHandler (clearResizeTimeout s) = resizeHandler s"
  "orientationHandler (clearResizeTimeout s) = orientationHandler s"
  "visibilityHandler (clearResizeTimeout s) = visibilityHandler s"
  "resizeTimeout (clearResizeTimeout s) = None"
  "resizeObserver (clearResizeTimeout s) = resizeObserver s"
  "renderLogCounter (clearResizeTimeout s) = renderLogCounter s"
  "lastRenderLogTime (clearResizeTimeout s) = lastRenderLogTime s"
  "lastSize (clearResizeTimeout s) = lastSize s"
  "lastDevice (clearResizeTimeout s) = lastDevice s"
  "updateSizePending (clearResizeTimeout s) = updateSizePending s"
  "isPageVisible (clearResizeTimeout s) = isPageVisible s"
  "resizeDebounceTimeout (clearResizeTimeout s) = resizeDebounceTimeout s"
  "orientationDebounceTimeout (clearResizeTimeout s) = orientationDebounceTimeout s"
  "observerDebounceTimeout (clearResizeTimeout s) = observerDebounceTimeout s"
  "rendererSize (clearResizeTimeout s) = rendererSize s"
  "rendererPixelRatio (clearResizeTimeout s) = rendererPixelRatio s"
  "frames (clearResizeTimeout s) = frames s"
  "timers (clearResizeTimeout s) = (case resizeTimeout s of None \<Rightarrow> timers s | Some handle \<Rightarrow>
     (timers s)(handle := None))"
  "nextFrame (clearResizeTimeout s) = nextFrame s"
  "nextTimer (clearResizeTimeout s) = nextTimer s"
  "listeners (clearResizeTimeout s) = listeners s"
  "observerConnected (clearResizeTimeout s) = observerConnected s"
  "effects (clearResizeTimeout s) = effects s @ (case resizeTimeout s of None \<Rightarrow> [] | Some handle
     \<Rightarrow> [ClearTimeout handle])"
  by (simp_all add: clearResizeTimeout_def host_calls split: option.splits)

lemma disposeGalaxy_fields [simp]:
  "camera (disposeGalaxy s) = camera s"
  "galaxyGroup (disposeGalaxy s) = None"
  "particles (disposeGalaxy s) = (case galaxyGroup s of None \<Rightarrow> particles s | Some g \<Rightarrow> [])"
  "animationId (disposeGalaxy s) = animationId s"
  "isDestroyed (disposeGalaxy s) = isDestroyed s"
  "time (disposeGalaxy s) = time s"
  "resizeHandler (disposeGalaxy s) = resizeHandler s"
  "orientationHandler (disposeGalaxy s) = orientationHandler s"
  "visibilityHandler (disposeGalaxy s) = visibilityHandler s"
  "resizeTimeout (disposeGalaxy s) = resizeTimeout s"
  "resizeObserver (disposeGalaxy s) = resizeObserver s"
  "renderLogCounter (disposeGalaxy s) = renderLogCounter s"
  "lastRenderLogTime (disposeGalaxy s) = lastRenderLogTime s"
  "lastSize (disposeGalaxy s) = lastSize s"
  "lastDevice (disposeGalaxy s) = lastDevice s"
  "updateSizePending (disposeGalaxy s) = updateSizePending s"
  "isPageVisible (disposeGalaxy s) = isPageVisible s"
  "resizeDebounceTimeout (disposeGalaxy s) = resizeDebounceTimeout s"
  "orientationDebounceTimeout (disposeGalaxy s) = orientationDebounceTimeout s"
  "observerDebounceTimeout (disposeGalaxy s) = observerDebounceTimeout s"
  "rendererSize (disposeGalaxy s) = rendererSize s"
  "rendererPixelRatio (disposeGalaxy s) = rendererPixelRatio s"
  "frames (disposeGalaxy s) = frames s"
  "timers (disposeGalaxy s) = timers s"
  "nextFrame (disposeGalaxy s) = nextFrame s"
  "nextTimer (disposeGalaxy s) = nextTimer s"
  "listeners (disposeGalaxy s) = listeners s"
  "observerConnected (disposeGalaxy s) = observerConnected s"
  "effects (disposeGalaxy s) = effects s @ (case galaxyGroup s of None \<Rightarrow> [] | Some g \<Rightarrow>
     disposeParticles 0 (particles s) @ [SceneRemove])"
  by (simp_all add: disposeGalaxy_def host_calls split: option.splits)

lemma destroy_fields [simp]:
  "camera (destroy s) = camera s"
  "galaxyGroup (destroy s) = None"
  "particles (destroy s) = (case galaxyGroup s of None \<Rightarrow> particles s | Some g \<Rightarrow> [])"
  "animationId (destroy s) = None"
  "isDestroyed (destroy s) = True"
  "time (destroy s) = time s"
  "resizeHandler (destroy s) = False"
  "orientationHandler (destroy s) = False"
  "visibilityHandler (destroy s) = False"
  "resizeTimeout (destroy s) = None"
  "resizeObserver (destroy s) = False"
  "renderLogCounter (destroy s) = renderLogCounter s"
  "lastRenderLogTime (destroy s) = lastRenderLogTime s"
  "lastSize (destroy s) = lastSize s"
  "lastDevice (destroy s) = lastDevice s"
  "updateSizePending (destroy s) = updateSizePending s"
  "isPageVisible (destroy s) = isPageVisible s"
  "resizeDebounceTimeout (destroy s) = resizeDebounceTimeout s"
  "orientationDebounceTimeout (destroy s) = orientationDebounceTimeout s"
  "observerDebounceTimeout (destroy s) = observerDebounceTimeout s"
  "rendererSize (destroy s) = rendererSize s"
  "rendererPixelRatio (destroy s) = rendererPixelRatio s"
  "frames (destroy s) = (case animationId s of None \<Rightarrow> frames s | Some handle \<Rightarrow> (frames s)(handle
     := None))"
  "timers (destroy s) = (case resizeTimeout s of None \<Rightarrow> timers s | Some handle \<Rightarrow> (timers
     s)(handle := None))"
  "nextFrame (destroy s) = nextFrame s"
  "nextTimer (destroy s) = nextTimer s"
  "listeners (destroy s) = listeners s - ((if resizeHandler s then {ResizeListener} else {}) \<union>
     (if orientationHandler s then {OrientationListener} else {}) \<union> (if visibilityHandler s then
     {VisibilityListener} else {}))"
  "observerConnected (destroy s) = (observerConnected s \<and> \<not> resizeObserver s)"
  "effects (destroy s) = effects s @ (case animationId s of None \<Rightarrow> [] | Some handle \<Rightarrow>
     [CancelAnimationFrame handle]) @ (if resizeObserver s then [ObserverDisconnect] else []) @
     (if resizeHandler s then [RemoveEventListener ResizeListener] else []) @ (if
     orientationHandler s then [RemoveEventListener OrientationListener] else []) @ (if
     visibilityHandler s then [RemoveEventListener VisibilityListener] else []) @ (case
     resizeTimeout s of None \<Rightarrow> [] | Some handle \<Rightarrow> [ClearTimeout handle]) @ (case galaxyGroup s
     of None \<Rightarrow> [] | Some g \<Rightarrow> disposeParticles 0 (particles s) @ [SceneRemove]) @
     [RendererDispose]"
  by (auto simp add: destroy_def emit_def Let_def split: option.splits)

lemma createGalaxy_fields [simp]:
  "camera (createGalaxy h random s) = camera s"
  "galaxyGroup (createGalaxy h random s) = Some \<lparr>rotationX = (if deviceType h = Mobile then - pi
     * (8 / 100) else - pi * (1 / 10)), rotationY = pi * (1 / 10)\<rparr>"
  "particles (createGalaxy h random s) = createLoop (deviceType h) random
     (optimizedParticleCount h) 0 []"
  "animationId (createGalaxy h random s) = animationId s"
  "isDestroyed (createGalaxy h random s) = isDestroyed s"
  "time (createGalaxy h random s) = time s"
  "resizeHandler (createGalaxy h random s) = resizeHandler s"
  "orientationHandler (createGalaxy h random s) = orientationHandler s"
  "visibilityHandler (createGalaxy h random s) = visibilityHandler s"
  "resizeTimeout (createGalaxy h random s) = resizeTimeout s"
  "resizeObserver (createGalaxy h random s) = resizeObserver s"
  "renderLogCounter (createGalaxy h random s) = renderLogCounter s"
  "lastRenderLogTime (createGalaxy h random s) = lastRenderLogTime s"
  "lastSize (createGalaxy h random s) = lastSize s"
  "lastDevice (createGalaxy h random s) = lastDevice s"
  "updateSizePending (createGalaxy h random s) = updateSizePending s"
  "isPageVisible (createGalaxy h random s) = isPageVisible s"
  "resizeDebounceTimeout (createGalaxy h random s) = resizeDebounceTimeout s"
  "orientationDebounceTimeout (createGalaxy h random s) = orientationDebounceTimeout s"
  "observerDebounceTimeout (createGalaxy h random s) = observerDebounceTimeout s"
  "rendererSize (createGalaxy h random s) = rendererSize s"
  "rendererPixelRatio (createGalaxy h random s) = rendererPixelRatio s"
  "frames (createGalaxy h random s) = frames s"
  "timers (createGalaxy h random s) = timers s"
  "nextFrame (createGalaxy h random s) = nextFrame s"
  "nextTimer (createGalaxy h random s) = nextTimer s"
  "listeners (createGalaxy h random s) = listeners s"
  "observerConnected (createGalaxy h random s) = observerConnected s"
  "effects (createGalaxy h random s) = effects s @ [SceneAdd]"
  by (simp_all add: createGalaxy_def emit_def Let_def)

lemma handleResize_fields [simp]:
  "camera (handleResize h s) = camera s"
  "galaxyGroup (handleResize h s) = galaxyGroup s"
  "particles (handleResize h s) = particles s"
  "animationId (handleResize h s) = animationId s"
  "isDestroyed (handleResize h s) = isDestroyed s"
  "time (handleResize h s) = time s"
  "resizeHandler (handleResize h s) = True"
  "orientationHandler (handleResize h s) = True"
  "visibilityHandler (handleResize h s) = visibilityHandler s"
  "resizeTimeout (handleResize h s) = resizeTimeout s"
  "resizeObserver (handleResize h s) = (hasResizeObserver h \<or> resizeObserver s)"
  "renderLogCounter (handleResize h s) = renderLogCounter s"
  "lastRenderLogTime (handleResize h s) = lastRenderLogTime s"
  "lastSize (handleResize h s) = lastSize s"
  "lastDevice (handleResize h s) = lastDevice s"
  "updateSizePending (handleResize h s) = updateSizePending s"
  "isPageVisible (handleResize h s) = isPageVisible s"
  "resizeDebounceTimeout (handleResize h s) = resizeDebounceTimeout s"
  "orientationDebounceTimeout (handleResize h s) = orientationDebounceTimeout s"
  "observerDebounceTimeout (handleResize h s) = observerDebounceTimeout s"
  "rendererSize (handleResize h s) = rendererSize s"
  "rendererPixelRatio (handleResize h s) = rendererPixelRatio s"
  "frames (handleResize h s) = frames s"
  "timers (handleResize h s) = timers s"
  "nextFrame (handleResize h s) = nextFrame s"
  "nextTimer (handleResize h s) = nextTimer s"
  "listeners (handleResize h s) = listeners s \<union> {ResizeListener, OrientationListener}"
  "observerConnected (handleResize h s) = (hasResizeObserver h \<and> parentRect h \<noteq> None \<or>
     observerConnected s)"
  "effects (handleResize h s) = effects s @ (if hasResizeObserver h \<and> parentRect h \<noteq> None then
     [ObserverObserve] else []) @ [AddEventListener ResizeListener, AddEventListener
     OrientationListener]"
  by (auto simp add: handleResize_def emit_def Let_def split: option.splits)

lemma handleVisibility_fields [simp]:
  "camera (handleVisibility h s) = camera s"
  "galaxyGroup (handleVisibility h s) = galaxyGroup s"
  "particles (handleVisibility h s) = particles s"
  "animationId (handleVisibility h s) = animationId s"
  "isDestroyed (handleVisibility h s) = isDestroyed s"
  "time (handleVisibility h s) = time s"
  "resizeHandler (handleVisibility h s) = resizeHandler s"
  "orientationHandler (handleVisibility h s) = orientationHandler s"
  "visibilityHandler (handleVisibility h s) = True"
  "resizeTimeout (handleVisibility h s) = resizeTimeout s"
  "resizeObserver (handleVisibility h s) = resizeObserver s"
  "renderLogCounter (handleVisibility h s) = renderLogCounter s"
  "lastRenderLogTime (handleVisibility h s) = lastRenderLogTime s"
  "lastSize (handleVisibility h s) = lastSize s"
  "lastDevice (handleVisibility h s) = lastDevice s"
  "updateSizePending (handleVisibility h s) = updateSizePending s"
  "isPageVisible (handleVisibility h s) = (\<not> documentHidden h)"
  "resizeDebounceTimeout (handleVisibility h s) = resizeDebounceTimeout s"
  "orientationDebounceTimeout (handleVisibility h s) = orientationDebounceTimeout s"
  "observerDebounceTimeout (handleVisibility h s) = observerDebounceTimeout s"
  "rendererSize (handleVisibility h s) = rendererSize s"
  "rendererPixelRatio (handleVisibility h s) = rendererPixelRatio s"
  "frames (handleVisibility h s) = frames s"
  "timers (handleVisibility h s) = timers s"
  "nextFrame (handleVisibility h s) = nextFrame s"
  "nextTimer (handleVisibility h s) = nextTimer s"
  "listeners (handleVisibility h s) = listeners s \<union> {VisibilityListener}"
  "observerConnected (handleVisibility h s) = observerConnected s"
  "effects (handleVisibility h s) = effects s @ [AddEventListener VisibilityListener]"
  by (simp_all add: handleVisibility_def emit_def Let_def)

lemma construct_fields [simp]:
  "camera (construct h random) = \<lparr>cameraPosition = getCameraPosition h, cameraLookAt =
     getCameraLookAt h, fov = getCameraFOV h, aspect = (if snd (getCanvasSize h) = 0 then None
     else Some (real_of_int (fst (getCanvasSize h)) / real_of_int (snd (getCanvasSize h))))\<rparr>"
  "galaxyGroup (construct h random) = Some \<lparr>rotationX = (if deviceType h = Mobile then - pi * (8
     / 100) else - pi * (1 / 10)), rotationY = (if documentHidden h then pi * (1 / 10) else pi *
     (1 / 10) + 3 / 100000)\<rparr>"
  "particles (construct h random) = (if documentHidden h then createLoop (deviceType h) random
     (optimizedParticleCount h) 0 [] else map (orbit (5 / 1000)) (createLoop (deviceType h)
     random (optimizedParticleCount h) 0 []))"
  "animationId (construct h random) = (if documentHidden h then None else Some 1)"
  "isDestroyed (construct h random) = False"
  "time (construct h random) = (if documentHidden h then 0 else 5 / 1000)"
  "resizeHandler (construct h random) = True"
  "orientationHandler (construct h random) = True"
  "visibilityHandler (construct h random) = True"
  "resizeTimeout (construct h random) = None"
  "resizeObserver (construct h random) = hasResizeObserver h"
  "renderLogCounter (construct h random) = (if documentHidden h \<or> dateNow h > 5000 then 0 else
     1)"
  "lastRenderLogTime (construct h random) = (if \<not> documentHidden h \<and> dateNow h > 5000 then
     dateNow h else 0)"
  "lastSize (construct h random) = None"
  "lastDevice (construct h random) = None"
  "updateSizePending (construct h random) = False"
  "isPageVisible (construct h random) = (\<not> documentHidden h)"
  "resizeDebounceTimeout (construct h random) = None"
  "orientationDebounceTimeout (construct h random) = None"
  "observerDebounceTimeout (construct h random) = None"
  "rendererSize (construct h random) = getCanvasSize h"
  "rendererPixelRatio (construct h random) = optimalPixelRatio h"
  "frames (construct h random) = (if documentHidden h then Map.empty else [1 \<mapsto>
     AnimateCallback])"
  "timers (construct h random) = Map.empty"
  "nextFrame (construct h random) = (if documentHidden h then 1 else 2)"
  "nextTimer (construct h random) = 1"
  "listeners (construct h random) = {ResizeListener, OrientationListener, VisibilityListener}"
  "observerConnected (construct h random) = (hasResizeObserver h \<and> parentRect h \<noteq> None)"
  "effects (construct h random) = [RendererSetSize (fst (getCanvasSize h)) (snd (getCanvasSize
     h)) True, RendererSetPixelRatio (optimalPixelRatio h), RendererSetClearColor,
     CameraPositionSet (getCameraPosition h), CameraLookAt (getCameraLookAt h), SceneAdd] @ (if
     hasResizeObserver h \<and> parentRect h \<noteq> None then [ObserverObserve] else []) @
     [AddEventListener ResizeListener, AddEventListener OrientationListener, AddEventListener
     VisibilityListener] @ (if documentHidden h then [] else [RequestAnimationFrame 1
     AnimateCallback, Render])"
  by (simp_all add: construct_def initialSystem_def emit_def Let_def insert_commute)

section \<open>Invariants of the reachable states\<close>


lemmas callback_defs = runTimer_def runFrame_def

lemma framesFresh_construct: "framesFresh (construct h random)"
  by (simp add: framesFresh_def)

lemma framesFresh_step: "framesFresh s \<Longrightarrow> framesFresh (step h e s)"
proof (cases e)
  case WindowResize
  assume "framesFresh s"
  then show ?thesis
    by (simp add: WindowResize framesFresh_def)
next
  case OrientationChange
  assume "framesFresh s"
  then show ?thesis
    by (simp add: OrientationChange framesFresh_def)
next
  case ResizeObserved
  assume "framesFresh s"
  then show ?thesis
    by (simp add: ResizeObserved framesFresh_def)
next
  case VisibilityChange
  assume "framesFresh s"
  then show ?thesis
    by (auto simp add: VisibilityChange framesFresh_def less_Suc_eq
      split: option.splits if_splits)
next
  case (TimerFires x5)
  assume "framesFresh s"
  then show ?thesis
    by (auto simp add: TimerFires framesFresh_def callback_defs less_Suc_eq
      split: option.splits if_splits timerCallback.splits)
next
  case (FrameFires x6)
  assume "framesFresh s"
  then show ?thesis
    by (auto simp add: FrameFires framesFresh_def callback_defs less_Suc_eq
      split: option.splits if_splits frameCallback.splits)
next
  case DestroyCall
  assume "framesFresh s"
  then show ?thesis
    by (auto simp add: DestroyCall framesFresh_def
      split: option.splits if_splits)
qed

lemma reachable_framesFresh: "reachable s \<Longrightarrow> framesFresh s"
  by (induction rule: reachable.induct) (simp_all add: framesFresh_construct framesFresh_step)


lemma animationTracked_construct: "animationTracked (construct h random)"
  by (simp add: animationTracked_def)

lemma animationTracked_fields:
  "frames t = frames s \<Longrightarrow> animationId t = animationId s \<Longrightarrow> isDestroyed t = isDestroyed s \<Longrightarrow>
   isPageVisible t = isPageVisible s \<Longrightarrow> animationTracked t = animationTracked s"
  by (simp add: animationTracked_def)

lemma animationTracked_removal:
  "animationTracked s \<Longrightarrow> animationTracked (s\<lparr>frames := (frames s)(i := None)\<rparr>)"
  by (simp add: animationTracked_def)

lemma animationTracked_timers [simp]:
  "animationTracked (s\<lparr>timers := x\<rparr>) = animationTracked s"
  by (simp add: animationTracked_def)

lemma animationTracked_updateSize:
  "animationTracked s \<Longrightarrow> animationTracked (updateSize src s)"
  by (simp add: animationTracked_def)

lemma animationTracked_animate:
  assumes fresh: "0 < nextFrame s"
    and none: "\<forall>i. frames s i \<noteq> Some AnimateCallback"
    and destroyed: "isDestroyed s \<longrightarrow> animationId s = None"
    and zero: "animationId s \<noteq> Some 0"
  shows "animationTracked (animate h s)"
  using assms by (simp add: animationTracked_def)


lemma animationTracked_visibility:
  assumes fresh: "framesFresh s" and tracked: "animationTracked s"
  shows "animationTracked (handleVisibilityChange h s)"
proof (cases "documentHidden h")
  case True
  with tracked show ?thesis
    by (fastforce simp add: animationTracked_def split: option.splits)
next
  case visible: False
  show ?thesis
  proof (cases "noAnimationId s \<and> \<not> isDestroyed s")
    case True
    with tracked have none: "animationId s = None"
      by (simp add: animationTracked_def noAnimationId_def split: option.splits)
    with tracked have "\<forall>i. frames s i \<noteq> Some AnimateCallback"
      by (auto simp add: animationTracked_def)
    moreover from fresh have "0 < nextFrame s" by (simp add: framesFresh_def)
    ultimately show ?thesis
      using visible True none by (simp add: animationTracked_def)
  next
    case False
    with tracked visible show ?thesis
      by (auto simp add: animationTracked_def)
  qed
qed

lemma animationTracked_destroy: "animationTracked s \<Longrightarrow> animationTracked (destroy s)"
  by (fastforce simp add: animationTracked_def split: option.splits)

lemma animationTracked_frame:
  assumes fresh: "framesFresh s" and tracked: "animationTracked s"
    and pending: "frames s i = Some cb"
  shows "animationTracked (runFrame h cb (s\<lparr>frames := (frames s)(i := None)\<rparr>))"
proof (cases cb)
  case AnimateCallback
  let ?s = "s\<lparr>frames := (frames s)(i := None)\<rparr>"
  from tracked pending AnimateCallback have id: "animationId s = Some i"
    by (simp add: animationTracked_def)
  with tracked have "\<forall>j. frames s j = Some AnimateCallback \<longrightarrow> j = i"
    by (auto simp add: animationTracked_def)
  then have none: "\<forall>j. frames ?s j \<noteq> Some AnimateCallback" by auto
  from fresh have positive: "0 < nextFrame ?s" by (simp add: framesFresh_def)
  from tracked have rest: "isDestroyed ?s \<longrightarrow> animationId ?s = None" "animationId ?s \<noteq> Some 0"
    by (simp_all add: animationTracked_def)
  from positive none rest have "animationTracked (animate h ?s)"
    by (rule animationTracked_animate)
  with AnimateCallback show ?thesis by (simp add: runFrame_def)
next
  case (UpdateSizeCallback src)
  have "animationTracked (updateSizeFrame h src (s\<lparr>frames := (frames s)(i := None)\<rparr>)) =
        animationTracked (s\<lparr>frames := (frames s)(i := None)\<rparr>)"
    by (rule animationTracked_fields) simp_all
  with tracked UpdateSizeCallback show ?thesis
    by (simp add: runFrame_def animationTracked_removal)
qed

lemma animationTracked_timer:
  assumes tracked: "animationTracked s"
  shows "animationTracked (runTimer h cb (s\<lparr>timers := x\<rparr>))"
proof (cases cb)
  case PixelRatioUpdate
  have "animationTracked (pixelRatioTimer h (s\<lparr>timers := x\<rparr>)) = animationTracked s"
    by (rule animationTracked_fields) simp_all
  with tracked PixelRatioUpdate show ?thesis by (simp add: runTimer_def)
qed (use tracked in \<open>simp_all add: runTimer_def animationTracked_updateSize\<close>)

lemma animationTracked_step:
  assumes fresh: "framesFresh s" and tracked: "animationTracked s"
  shows "animationTracked (step h e s)"
proof (cases e)
  case WindowResize
  have "animationTracked (handleResizeEvent s) = animationTracked s"
    by (rule animationTracked_fields) simp_all
  with tracked WindowResize show ?thesis by simp
next
  case OrientationChange
  have "animationTracked (handleOrientationChange s) = animationTracked s"
    by (rule animationTracked_fields) simp_all
  with tracked OrientationChange show ?thesis by simp
next
  case ResizeObserved
  have "animationTracked (observerCallback s) = animationTracked s"
    by (rule animationTracked_fields) simp_all
  with tracked ResizeObserved show ?thesis by simp
next
  case VisibilityChange
  with fresh tracked show ?thesis by (simp add: animationTracked_visibility)
next
  case (TimerFires handle)
  with tracked show ?thesis
    by (simp add: animationTracked_timer split: option.splits)
next
  case (FrameFires handle)
  with fresh tracked show ?thesis
    by (simp add: animationTracked_frame split: option.splits)
next
  case DestroyCall
  with tracked show ?thesis by (simp add: animationTracked_destroy)
qed

lemma reachable_animationTracked: "reachable s \<Longrightarrow> animationTracked s"
proof (induction rule: reachable.induct)
  case (constructed h random)
  show ?case by (rule animationTracked_construct)
next
  case (stepped s h e)
  then show ?case by (simp add: animationTracked_step reachable_framesFresh)
qed

lemma singleFlight_construct: "singleFlight (construct h random)"
  by (simp add: singleFlight_def)

lemma singleFlight_fields:
  "frames t = frames s \<Longrightarrow> updateSizePending t = updateSizePending s \<Longrightarrow>
   singleFlight t = singleFlight s"
  by (simp add: singleFlight_def)

lemma singleFlight_removal:
  "singleFlight s \<Longrightarrow> singleFlight (s\<lparr>frames := (frames s)(i := None)\<rparr>)"
  by (simp add: singleFlight_def) blast

lemma singleFlight_timers [simp]: "singleFlight (s\<lparr>timers := x\<rparr>) = singleFlight s"
  by (simp add: singleFlight_def)

lemma singleFlight_updateSize: "singleFlight s \<Longrightarrow> singleFlight (updateSize src s)"
  by (simp add: singleFlight_def) blast

lemma singleFlight_updateSizeFrame:
  "\<forall>j a. frames s j \<noteq> Some (UpdateSizeCallback a) \<Longrightarrow> singleFlight (updateSizeFrame h src s)"
  by (simp add: singleFlight_def)

lemma singleFlight_animate: "singleFlight s \<Longrightarrow> singleFlight (animate h s)"
  by (simp add: singleFlight_def) blast

lemma singleFlight_visibility: "singleFlight s \<Longrightarrow> singleFlight (handleVisibilityChange h s)"
  by (simp add: singleFlight_def split: option.splits) blast

lemma singleFlight_destroy: "singleFlight s \<Longrightarrow> singleFlight (destroy s)"
  by (simp add: singleFlight_def split: option.splits) blast


lemma singleFlight_frame:
  assumes single: "singleFlight s" and pending: "frames s i = Some cb"
  shows "singleFlight (runFrame h cb (s\<lparr>frames := (frames s)(i := None)\<rparr>))"
proof (cases cb)
  case AnimateCallback
  with single show ?thesis
    by (simp add: runFrame_def singleFlight_animate singleFlight_removal)
next
  case (UpdateSizeCallback src)
  with single pending have "\<forall>j a. frames s j = Some (UpdateSizeCallback a) \<longrightarrow> j = i"
    by (auto simp add: singleFlight_def)
  then have "\<forall>j a. frames (s\<lparr>frames := (frames s)(i := None)\<rparr>) j \<noteq> Some (UpdateSizeCallback a)"
    by auto
  then have "singleFlight (updateSizeFrame h src (s\<lparr>frames := (frames s)(i := None)\<rparr>))"
    by (rule singleFlight_updateSizeFrame)
  with UpdateSizeCallback show ?thesis by (simp add: runFrame_def)
qed

lemma singleFlight_timer:
  assumes single: "singleFlight s"
  shows "singleFlight (runTimer h cb (s\<lparr>timers := x\<rparr>))"
proof (cases cb)
  case PixelRatioUpdate
  have "singleFlight (pixelRatioTimer h (s\<lparr>timers := x\<rparr>)) = singleFlight s"
    by (rule singleFlight_fields) simp_all
  with single PixelRatioUpdate show ?thesis by (simp add: runTimer_def)
qed (use single in \<open>simp_all add: runTimer_def singleFlight_updateSize\<close>)

lemma singleFlight_step:
  assumes single: "singleFlight s"
  shows "singleFlight (step h e s)"
proof (cases e)
  case WindowResize
  have "singleFlight (handleResizeEvent s) = singleFlight s"
    by (rule singleFlight_fields) simp_all
  with single WindowResize show ?thesis by simp
next
  case OrientationChange
  have "singleFlight (handleOrientationChange s) = singleFlight s"
    by (rule singleFlight_fields) simp_all
  with single OrientationChange show ?thesis by simp
next
  case ResizeObserved
  have "singleFlight (observerCallback s) = singleFlight s"
    by (rule singleFlight_fields) simp_all
  with single ResizeObserved show ?thesis by simp
next
  case VisibilityChange
  with single show ?thesis by (simp add: singleFlight_visibility)
next
  case (TimerFires handle)
  with single show ?thesis
    by (simp add: singleFlight_timer split: option.splits)
next
  case (FrameFires handle)
  with single show ?thesis
    by (simp add: singleFlight_frame split: option.splits)
next
  case DestroyCall
  with single show ?thesis by (simp add: singleFlight_destroy)
qed

lemma reachable_singleFlight: "reachable s \<Longrightarrow> singleFlight s"
  by (induction rule: reachable.induct) (simp_all add: singleFlight_construct singleFlight_step)

lemma attached_construct: "attached (construct h random)"
  by (simp add: attached_def)

lemma attached_step: "attached s \<Longrightarrow> attached (step h e s)"
  unfolding attached_def
  by (cases e)
    (simp_all add: callback_defs
      split: option.splits timerCallback.splits frameCallback.splits)

lemma reachable_attached: "reachable s \<Longrightarrow> attached s"
  by (induction rule: reachable.induct) (simp_all add: attached_construct attached_step)

lemma lifecycle_construct: "lifecycle (construct h random)"
  by (simp add: lifecycle_def)

lemma listeners_destroy: "attached s \<Longrightarrow> listeners (destroy s) = {}"
proof -
  assume a: "attached s"
  have "l \<in> (if resizeHandler s then {ResizeListener} else {}) \<union>
             (if orientationHandler s then {OrientationListener} else {}) \<union>
             (if visibilityHandler s then {VisibilityListener} else {})"
    if "l \<in> listeners s" for l
    using a that by (cases l) (simp_all add: attached_def)
  then show ?thesis by (simp only: destroy_fields) blast
qed

lemma torn_destroy: "attached s \<Longrightarrow> lifecycle s \<Longrightarrow> torn (destroy s)"
proof -
  assume a: "attached s" and l: "lifecycle s"
  from a have o: "observerConnected s \<longrightarrow> resizeObserver s" by (simp add: attached_def)
  from l have p: "galaxyGroup s = None \<longrightarrow> particles s = []"
    by (auto simp add: lifecycle_def torn_def split: if_splits)
  from o p listeners_destroy [OF a] show ?thesis
    by (auto simp add: torn_def split: option.splits)
qed

lemma resizes_destroyed [simp]: "isDestroyed s \<Longrightarrow> \<not> resizes h s"
  by (simp add: resizes_def)

lemma resizes_frames [simp]: "resizes h (s\<lparr>frames := x\<rparr>) = resizes h s"
  by (simp add: resizes_def)

lemma torn_step: "torn s \<Longrightarrow> torn (step h e s)"
  unfolding torn_def
  by (cases e)
    (simp_all add: callback_defs
      split: option.splits timerCallback.splits frameCallback.splits)

lemma live_step:
  "\<not> isDestroyed s \<Longrightarrow> galaxyGroup s \<noteq> None \<Longrightarrow> e \<noteq> DestroyCall \<Longrightarrow>
   \<not> isDestroyed (step h e s) \<and> galaxyGroup (step h e s) \<noteq> None"
  by (cases e)
    (auto simp add: callback_defs
      split: option.splits timerCallback.splits frameCallback.splits)

lemma lifecycle_step: "attached s \<Longrightarrow> lifecycle s \<Longrightarrow> lifecycle (step h e s)"
proof (cases "isDestroyed s")
  case True
  assume "lifecycle s"
  with True have "torn s" by (simp add: lifecycle_def)
  then have "torn (step h e s)" by (rule torn_step)
  then show ?thesis by (simp add: lifecycle_def torn_def)
next
  case False
  assume a: "attached s" and l: "lifecycle s"
  with False have g: "galaxyGroup s \<noteq> None" by (simp add: lifecycle_def)
  show ?thesis
  proof (cases "e = DestroyCall")
    case True
    with a l show ?thesis by (simp add: lifecycle_def torn_destroy)
  next
    case notDestroy: False
    from live_step [OF False g notDestroy] show ?thesis
      by (simp add: lifecycle_def)
  qed
qed

lemma reachable_lifecycle: "reachable s \<Longrightarrow> lifecycle s"
proof (induction rule: reachable.induct)
  case (constructed h random)
  show ?case by (rule lifecycle_construct)
next
  case (stepped s h e)
  then show ?case by (simp add: lifecycle_step reachable_attached)
qed

section \<open>Particles through the life of the system\<close>

lemma orbit_static:
  "initialAngle (orbit t p) = initialAngle p"
  "radius (orbit t p) = radius p"
  "orbitalSpeed (orbit t p) = orbitalSpeed p"
  "branchAngle (orbit t p) = branchAngle p"
  "randomOffset (orbit t p) = randomOffset p"
  "scale (sprite (orbit t p)) = scale (sprite p)"
  "material (sprite (orbit t p)) = material (sprite p)"
  by (simp_all add: orbit_def Let_def)

lemma position_orbit:
  "position (sprite (orbit t p)) =
     \<lparr>vx = cos (initialAngle p + orbitalSpeed p * t) * radius p + vx (randomOffset p),
      vy = vy (randomOffset p),
      vz = sin (initialAngle p + orbitalSpeed p * t) * radius p + vz (randomOffset p)\<rparr>"
  by (simp add: orbit_def Let_def)

lemma orbitalSpeed_createParticle:
  "orbitalSpeed (createParticle device random i) =
     (1 / 2) / sqrt (radius (createParticle device random i) + 1)"
  by (simp add: createParticle_def Let_def)

lemma mapTexture_createParticle:
  "mapTexture (material (sprite (createParticle device random i))) =
     Some (if random (9 * i + 2) < 1 / 2 then Texture1 else Texture0)"
  by (simp add: createParticle_def Let_def)

lemma particles_step:
  "particles (step h e s) = particles s \<or> particles (step h e s) = [] \<or>
   particles (step h e s) = map (orbit (time s + 5 / 1000)) (particles s)"
  by (cases e)
    (auto simp add: callback_defs
      split: option.splits timerCallback.splits frameCallback.splits)

lemma particlesSound_orbit:
  "particlesSound s \<Longrightarrow> particles t = map (orbit u) (particles s) \<Longrightarrow> particlesSound t"
  by (auto simp add: particlesSound_def orbit_static)

lemma particlesSound_construct: "particlesSound (construct h random)"
  by (auto simp add: particlesSound_def createLoop_all orbit_static
      orbitalSpeed_createParticle mapTexture_createParticle)

lemma particlesSound_step: "particlesSound s \<Longrightarrow> particlesSound (step h e s)"
  using particles_step [of h e s]
  by (auto simp add: particlesSound_def orbit_static)

lemma reachable_particlesSound: "reachable s \<Longrightarrow> particlesSound s"
  by (induction rule: reachable.induct)
    (simp_all add: particlesSound_construct particlesSound_step)

text \<open>An \<open>animate\<close> callback is pending only in a live system on a visible page.\<close>

lemma animate_pending_live:
  assumes "reachable s" and "frames s handle = Some AnimateCallback"
  shows "\<not> isDestroyed s \<and> isPageVisible s \<and> galaxyGroup s \<noteq> None \<and>
         animationId s = Some handle"
proof -
  from assms have id: "animationId s = Some handle"
    using reachable_animationTracked [of s] by (simp add: animationTracked_def)
  with assms(1) have "\<not> isDestroyed s" "isPageVisible s"
    using reachable_animationTracked [of s] by (auto simp add: animationTracked_def)
  moreover from this assms(1) have "galaxyGroup s \<noteq> None"
    using reachable_lifecycle [of s] by (simp add: lifecycle_def)
  ultimately show ?thesis using id by simp
qed

lemma wideHost_readings:
  "deviceType wideHost = Desktop" "optimizedParticleCount wideHost = 8000"
  "\<not> documentHidden wideHost" "getCanvasSize wideHost = (1920, 1080)"
  "hasResizeObserver wideHost" "parentRect wideHost \<noteq> None"
  by (simp_all add: deviceType_def optimizedParticleCount_def PARTICLES_COUNT_def
      getCanvasSize_def Math_round_def wideHost_def)

lemma RADIUS_five:
  "radius (createParticle Desktop fiveRandom i) = 5"
proof -
  have "((1 / 4 :: real) powr (2 / 5)) powr (5 / 2) = (1 / 4) powr 1"
    by (simp only: powr_powr) simp
  then show ?thesis
    by (simp add: radius_createParticle fiveRandom_def RADIUS_def)
qed

lemma particles_construct_arms:
  "length (particles (construct h random)) = optimizedParticleCount h"
  "i < optimizedParticleCount h \<Longrightarrow>
     branchAngle (particles (construct h random) ! i) =
     branchAngle (createLoop (deviceType h) random (optimizedParticleCount h) 0 [] ! i)"
  "length (filter (\<lambda>p. branchAngle p = a) (particles (construct h random))) =
   length (filter (\<lambda>p. branchAngle p = a)
     (createLoop (deviceType h) random (optimizedParticleCount h) 0 []))"
  by (simp_all add: length_createLoop orbit_static o_def)

text \<open>
  Claim C6. \<open>createGalaxy\<close> runs the loop for the particle count of the tier, so the
  particles of the system (after \<open>createGalaxy\<close>, and after the whole constructor) are the
  loop's. For every particle count \<open>n\<close>, particle \<open>i\<close> gets
  \<open>branchAngle = ((i mod 4) / 4) * 2 * pi\<close>, and each of the four arms (the particles
  with the branch angle of arm 0, 1, 2 or 3) holds the floor or the ceiling of \<open>n / 4\<close>
  particles; so it is for the particles of the system, with its own count for \<open>n\<close>.
\<close>

theorem createGalaxy_branch_balance:
  "BRANCHES = 4 \<and>
   (\<forall>i<n. branchAngle (createLoop device random n 0 [] ! i) = (real (i mod 4) / 4) * (2 * pi)) \<and>
   (\<forall>arm<4.
      let count = length (filter (\<lambda>p. branchAngle p = (real arm / 4) * (2 * pi))
                    (createLoop device random n 0 []))
      in int count = \<lfloor>real n / 4\<rfloor> \<or> int count = \<lceil>real n / 4\<rceil>) \<and>
   particles (createGalaxy h random s) =
     createLoop (deviceType h) random (optimizedParticleCount h) 0 [] \<and>
   length (particles (createGalaxy h random s)) = optimizedParticleCount h \<and>
   (\<forall>i<optimizedParticleCount h.
      branchAngle (particles (createGalaxy h random s) ! i) = (real (i mod 4) / 4) * (2 * pi)) \<and>
   (\<forall>arm<4.
      let count = length (filter (\<lambda>p. branchAngle p = (real arm / 4) * (2 * pi))
                    (particles (createGalaxy h random s)))
      in int count = \<lfloor>real (optimizedParticleCount h) / 4\<rfloor> \<or>
         int count = \<lceil>real (optimizedParticleCount h) / 4\<rceil>) \<and>
   length (particles (construct h random)) = optimizedParticleCount h \<and>
   (\<forall>i<optimizedParticleCount h.
      branchAngle (particles (construct h random) ! i) = (real (i mod 4) / 4) * (2 * pi)) \<and>
   (\<forall>arm<4.
      let count = length (filter (\<lambda>p. branchAngle p = (real arm / 4) * (2 * pi))
                    (particles (construct h random)))
      in int count = \<lfloor>real (optimizedParticleCount h) / 4\<rfloor> \<or>
         int count = \<lceil>real (optimizedParticleCount h) / 4\<rceil>)"
proof -
  have angle: "branchAngle (createLoop d random m 0 [] ! i) = (real (i mod 4) / 4) * (2 * pi)"
    if "i < m" for d m i
    using that by (simp only: nth_createLoop branchAngle_createParticle)
  have arms: "let count = length (filter (\<lambda>p. branchAngle p = (real arm / 4) * (2 * pi))
                    (createLoop d random m 0 []))
      in int count = \<lfloor>real m / 4\<rfloor> \<or> int count = \<lceil>real m / 4\<rceil>"
    if arm: "arm < 4" for d m and arm :: nat
    unfolding Let_def count_arm [OF arm] floor_quarter ceiling_quarter by auto
  have loop: "particles (createGalaxy h random s) =
     createLoop (deviceType h) random (optimizedParticleCount h) 0 []"
    by (rule particles_createGalaxy)
  show ?thesis
  proof (intro conjI allI impI)
    show "BRANCHES = 4" by (simp add: BRANCHES_def)
    show "particles (createGalaxy h random s) =
       createLoop (deviceType h) random (optimizedParticleCount h) 0 []"
      by (rule loop)
    show "length (particles (createGalaxy h random s)) = optimizedParticleCount h"
      unfolding loop by (rule length_createLoop)
    show "length (particles (construct h random)) = optimizedParticleCount h"
      by (rule particles_construct_arms)
  next
    fix i assume "i < n"
    then show "branchAngle (createLoop device random n 0 [] ! i) = (real (i mod 4) / 4) * (2 * pi)"
      by (rule angle)
  next
    fix arm :: nat assume "arm < 4"
    then show "let count = length (filter (\<lambda>p. branchAngle p = (real arm / 4) * (2 * pi))
                    (createLoop device random n 0 []))
      in int count = \<lfloor>real n / 4\<rfloor> \<or> int count = \<lceil>real n / 4\<rceil>"
      by (rule arms)
  next
    fix i assume "i < optimizedParticleCount h"
    then show "branchAngle (particles (createGalaxy h random s) ! i) = (real (i mod 4) / 4) * (2 * pi)"
      unfolding loop by (rule angle)
  next
    fix arm :: nat assume "arm < 4"
    then show "let count = length (filter (\<lambda>p. branchAngle p = (real arm / 4) * (2 * pi))
                    (particles (createGalaxy h random s)))
      in int count = \<lfloor>real (optimizedParticleCount h) / 4\<rfloor> \<or>
         int count = \<lceil>real (optimizedParticleCount h) / 4\<rceil>"
      unfolding loop by (rule arms)
  next
    fix i assume i: "i < optimizedParticleCount h"
    then show "branchAngle (particles (construct h random) ! i) = (real (i mod 4) / 4) * (2 * pi)"
      unfolding particles_construct_arms(2) [OF i] by (rule angle)
  next
    fix arm :: nat assume "arm < 4"
    then show "let count = length (filter (\<lambda>p. branchAngle p = (real arm / 4) * (2 * pi))
                    (particles (construct h random)))
      in int count = \<lfloor>real (optimizedParticleCount h) / 4\<rfloor> \<or>
         int count = \<lceil>real (optimizedParticleCount h) / 4\<rceil>"
      unfolding particles_construct_arms(3) by (rule arms)
  qed
qed

theorem createGalaxy_branch_balance_witness:
  "(4::nat) < 5 \<and>
   branchAngle (createLoop Desktop quarterRandom 5 0 [] ! 4) = 0 \<and>
   (0::nat) < 4 \<and>
   (int (length (filter (\<lambda>p. branchAngle p = 0) (createLoop Desktop quarterRandom 5 0 []))) = 1 \<or>
    int (length (filter (\<lambda>p. branchAngle p = 0) (createLoop Desktop quarterRandom 5 0 []))) = 2) \<and>
   optimizedParticleCount wideHost = 8000 \<and>
   length (particles (createGalaxy wideHost quarterRandom initialSystem)) = 8000 \<and>
   length (particles (construct wideHost quarterRandom)) = 8000 \<and>
   branchAngle (particles (createGalaxy wideHost quarterRandom initialSystem) ! 4) = 0 \<and>
   branchAngle (particles (construct wideHost quarterRandom) ! 4) = 0 \<and>
   length (filter (\<lambda>p. branchAngle p = 0)
     (particles (createGalaxy wideHost quarterRandom initialSystem))) = 2000 \<and>
   length (filter (\<lambda>p. branchAngle p = 0) (particles (construct wideHost quarterRandom))) = 2000"
proof -
  note small = createGalaxy_branch_balance [of 5 Desktop quarterRandom wideHost initialSystem]
  note wide = wideHost_readings(2)
  from small have "\<forall>i<5. branchAngle (createLoop Desktop quarterRandom 5 0 [] ! i) =
      (real (i mod 4) / 4) * (2 * pi)"
    by blast
  then have "(4::nat) < 5 \<longrightarrow> branchAngle (createLoop Desktop quarterRandom 5 0 [] ! 4) =
      (real (4 mod 4) / 4) * (2 * pi)"
    by (rule spec)
  then have angle: "branchAngle (createLoop Desktop quarterRandom 5 0 [] ! 4) = 0"
    by simp
  from small have "\<forall>arm<4.
      let count = length (filter (\<lambda>p. branchAngle p = (real arm / 4) * (2 * pi))
                    (createLoop Desktop quarterRandom 5 0 []))
      in int count = \<lfloor>real 5 / 4\<rfloor> \<or> int count = \<lceil>real 5 / 4\<rceil>"
    by blast
  then have "(0::nat) < 4 \<longrightarrow>
      (let count = length (filter (\<lambda>p. branchAngle p = (real 0 / 4) * (2 * pi))
                    (createLoop Desktop quarterRandom 5 0 []))
       in int count = \<lfloor>real 5 / 4\<rfloor> \<or> int count = \<lceil>real 5 / 4\<rceil>)"
    by (rule spec)
  then have arm: "int (length (filter (\<lambda>p. branchAngle p = 0)
        (createLoop Desktop quarterRandom 5 0 []))) = 1 \<or>
      int (length (filter (\<lambda>p. branchAngle p = 0)
        (createLoop Desktop quarterRandom 5 0 []))) = 2"
    by (simp add: Let_def)
  from small have len: "length (particles (createGalaxy wideHost quarterRandom initialSystem)) = 8000"
    "length (particles (construct wideHost quarterRandom)) = 8000"
    unfolding wide by blast+
  from small have "\<forall>i<8000.
      branchAngle (particles (createGalaxy wideHost quarterRandom initialSystem) ! i) =
        (real (i mod 4) / 4) * (2 * pi)"
    unfolding wide by blast
  then have "(4::nat) < 8000 \<longrightarrow>
      branchAngle (particles (createGalaxy wideHost quarterRandom initialSystem) ! 4) =
        (real (4 mod 4) / 4) * (2 * pi)"
    by (rule spec)
  then have angleG: "branchAngle (particles (createGalaxy wideHost quarterRandom initialSystem) ! 4) = 0"
    by simp
  from small have "\<forall>i<8000.
      branchAngle (particles (construct wideHost quarterRandom) ! i) =
        (real (i mod 4) / 4) * (2 * pi)"
    unfolding wide by blast
  then have "(4::nat) < 8000 \<longrightarrow>
      branchAngle (particles (construct wideHost quarterRandom) ! 4) =
        (real (4 mod 4) / 4) * (2 * pi)"
    by (rule spec)
  then have angleC: "branchAngle (particles (construct wideHost quarterRandom) ! 4) = 0"
    by simp
  have q: "\<lfloor>real 8000 / 4\<rfloor> = 2000" "\<lceil>real 8000 / 4\<rceil> = 2000" by simp_all
  from small have "\<forall>arm<4.
      let count = length (filter (\<lambda>p. branchAngle p = (real arm / 4) * (2 * pi))
                    (particles (createGalaxy wideHost quarterRandom initialSystem)))
      in int count = \<lfloor>real 8000 / 4\<rfloor> \<or> int count = \<lceil>real 8000 / 4\<rceil>"
    unfolding wide by blast
  then have "(0::nat) < 4 \<longrightarrow>
      (let count = length (filter (\<lambda>p. branchAngle p = (real 0 / 4) * (2 * pi))
                    (particles (createGalaxy wideHost quarterRandom initialSystem)))
       in int count = \<lfloor>real 8000 / 4\<rfloor> \<or> int count = \<lceil>real 8000 / 4\<rceil>)"
    by (rule spec)
  then have armG: "length (filter (\<lambda>p. branchAngle p = 0)
        (particles (createGalaxy wideHost quarterRandom initialSystem))) = 2000"
    unfolding q Let_def by simp
  from small have "\<forall>arm<4.
      let count = length (filter (\<lambda>p. branchAngle p = (real arm / 4) * (2 * pi))
                    (particles (construct wideHost quarterRandom)))
      in int count = \<lfloor>real 8000 / 4\<rfloor> \<or> int count = \<lceil>real 8000 / 4\<rceil>"
    unfolding wide by blast
  then have "(0::nat) < 4 \<longrightarrow>
      (let count = length (filter (\<lambda>p. branchAngle p = (real 0 / 4) * (2 * pi))
                    (particles (construct wideHost quarterRandom)))
       in int count = \<lfloor>real 8000 / 4\<rfloor> \<or> int count = \<lceil>real 8000 / 4\<rceil>)"
    by (rule spec)
  then have armC: "length (filter (\<lambda>p. branchAngle p = 0)
        (particles (construct wideHost quarterRandom))) = 2000"
    unfolding q Let_def by simp
  from angle arm wide len angleG angleC armG armC show ?thesis by simp
qed

text \<open>
  Claim C9. The per-frame update changes particle positions only: whatever branch
  \<open>animate\<close> takes, the particle list keeps its length and every particle keeps its
  \<open>initialAngle\<close>, \<open>radius\<close>, \<open>orbitalSpeed\<close>, \<open>branchAngle\<close> and \<open>randomOffset\<close>, and its
  sprite keeps its scale and its material's texture, colour and opacity; the same holds
  when the host runs a pending \<open>animate\<close> callback.
\<close>

theorem animate_mutates_position_only:
  "length (particles (animate h s)) = length (particles s) \<and>
   (\<forall>i<length (particles s).
      let before = particles s ! i; after = particles (animate h s) ! i
      in initialAngle after = initialAngle before \<and>
         radius after = radius before \<and>
         orbitalSpeed after = orbitalSpeed before \<and>
         branchAngle after = branchAngle before \<and>
         randomOffset after = randomOffset before \<and>
         scale (sprite after) = scale (sprite before) \<and>
         mapTexture (material (sprite after)) = mapTexture (material (sprite before)) \<and>
         color (material (sprite after)) = color (material (sprite before)) \<and>
         opacity (material (sprite after)) = opacity (material (sprite before))) \<and>
   (\<forall>handle i. frames s handle = Some AnimateCallback \<and> i < length (particles s) \<longrightarrow>
      (let before = particles s ! i; after = particles (step h (FrameFires handle) s) ! i
       in initialAngle after = initialAngle before \<and>
          radius after = radius before \<and>
          orbitalSpeed after = orbitalSpeed before \<and>
          branchAngle after = branchAngle before \<and>
          randomOffset after = randomOffset before \<and>
          scale (sprite after) = scale (sprite before) \<and>
          material (sprite after) = material (sprite before)))"
  by (simp add: orbit_static Let_def runFrame_def)

theorem animate_mutates_position_only_witness:
  "(0::nat) < length (particles (construct wideHost quarterRandom)) \<and>
   frames (construct wideHost quarterRandom) 1 = Some AnimateCallback \<and>
   radius (particles (animate wideHost (construct wideHost quarterRandom)) ! 0) =
     radius (particles (construct wideHost quarterRandom) ! 0) \<and>
   material (sprite (particles (step wideHost (FrameFires 1) (construct wideHost quarterRandom)) ! 0)) =
     material (sprite (particles (construct wideHost quarterRandom) ! 0))"
proof -
  let ?s = "construct wideHost quarterRandom"
  have len: "(0::nat) < length (particles ?s)"
    by (simp add: wideHost_readings length_createLoop)
  have pending: "frames ?s 1 = Some AnimateCallback"
    by (simp add: wideHost_readings)
  note only = animate_mutates_position_only [of wideHost ?s]
  from only have "\<forall>i<length (particles ?s).
      let before = particles ?s ! i; after = particles (animate wideHost ?s) ! i
      in initialAngle after = initialAngle before \<and>
         radius after = radius before \<and>
         orbitalSpeed after = orbitalSpeed before \<and>
         branchAngle after = branchAngle before \<and>
         randomOffset after = randomOffset before \<and>
         scale (sprite after) = scale (sprite before) \<and>
         mapTexture (material (sprite after)) = mapTexture (material (sprite before)) \<and>
         color (material (sprite after)) = color (material (sprite before)) \<and>
         opacity (material (sprite after)) = opacity (material (sprite before))"
    by (rule conjunct1 [OF conjunct2])
  with len have direct: "radius (particles (animate wideHost ?s) ! 0) = radius (particles ?s ! 0)"
    unfolding Let_def by blast
  from only have "\<forall>handle i. frames ?s handle = Some AnimateCallback \<and> i < length (particles ?s) \<longrightarrow>
      (let before = particles ?s ! i; after = particles (step wideHost (FrameFires handle) ?s) ! i
       in initialAngle after = initialAngle before \<and>
          radius after = radius before \<and>
          orbitalSpeed after = orbitalSpeed before \<and>
          branchAngle after = branchAngle before \<and>
          randomOffset after = randomOffset before \<and>
          scale (sprite after) = scale (sprite before) \<and>
          material (sprite after) = material (sprite before))"
    by (rule conjunct2 [OF conjunct2])
  with len pending have fired:
    "material (sprite (particles (step wideHost (FrameFires 1) ?s) ! 0)) =
     material (sprite (particles ?s ! 0))"
    unfolding Let_def by blast
  from len pending direct fired show ?thesis by blast
qed

text \<open>
  Claim C7. When an animation frame callback runs in a reachable state, every particle,
  of orbital radius \<open>r\<close>, gets the position
  \<open>x = cos a * r + randomOffset.x\<close>, \<open>y = randomOffset.y\<close>, \<open>z = sin a * r + randomOffset.z\<close>
  with \<open>a = initialAngle + orbitalSpeed * time\<close>, where \<open>time\<close> is the simulation time after
  the frame's increment of 0.005 and \<open>orbitalSpeed = 0.5 / sqrt (r + 1)\<close>; for \<open>r = 5\<close> the
  speed is \<open>0.5 / sqrt 6\<close> and the angle \<open>initialAngle + (0.5 / sqrt 6) * time\<close>.
\<close>

theorem animation_frame_positions:
  assumes "reachable s" and "frames s handle = Some AnimateCallback"
    and "i < length (particles s)"
  shows "let before = particles s ! i;
             after = step h (FrameFires handle) s;
             r = radius before;
             currentAngle = initialAngle before + ((1 / 2) / sqrt (r + 1)) * time after
         in time after = time s + 5 / 1000 \<and>
            orbitalSpeed before = (1 / 2) / sqrt (r + 1) \<and>
            radius (particles after ! i) = r \<and>
            position (sprite (particles after ! i)) =
              \<lparr>vx = cos currentAngle * r + vx (randomOffset before),
               vy = vy (randomOffset before),
               vz = sin currentAngle * r + vz (randomOffset before)\<rparr> \<and>
            (r = 5 \<longrightarrow> orbitalSpeed before = (1 / 2) / sqrt 6 \<and>
               currentAngle = initialAngle before + ((1 / 2) / sqrt 6) * time after)"
proof -
  from assms(1,2) have live: "\<not> isDestroyed s" "isPageVisible s" "galaxyGroup s \<noteq> None"
    using animate_pending_live by blast+
  from assms(1) have "particlesSound s" by (rule reachable_particlesSound)
  with assms(3) have speed:
    "orbitalSpeed (particles s ! i) = (1 / 2) / sqrt (radius (particles s ! i) + 1)"
    by (simp add: particlesSound_def)
  have after: "particles (step h (FrameFires handle) s) = map (orbit (time s + 5 / 1000)) (particles s)"
    "time (step h (FrameFires handle) s) = time s + 5 / 1000"
    using assms(2) live by (simp_all add: runFrame_def)
  show ?thesis
    unfolding Let_def after using assms(3) speed
    by (simp add: position_orbit orbit_static)
qed

theorem animation_frame_positions_witness:
  "reachable (construct wideHost fiveRandom) \<and>
   frames (construct wideHost fiveRandom) 1 = Some AnimateCallback \<and>
   (0::nat) < length (particles (construct wideHost fiveRandom)) \<and>
   radius (particles (construct wideHost fiveRandom) ! 0) = 5 \<and>
   orbitalSpeed (particles (construct wideHost fiveRandom) ! 0) = (1 / 2) / sqrt 6 \<and>
   time (step wideHost (FrameFires 1) (construct wideHost fiveRandom)) = 1 / 100 \<and>
   vy (position (sprite (particles (step wideHost (FrameFires 1) (construct wideHost fiveRandom)) ! 0))) =
     vy (randomOffset (particles (construct wideHost fiveRandom) ! 0))"
proof -
  let ?s = "construct wideHost fiveRandom"
  have r: "reachable ?s" by (rule reachable.constructed)
  have pending: "frames ?s 1 = Some AnimateCallback"
    by (simp add: wideHost_readings)
  have len: "(0::nat) < length (particles ?s)"
    by (simp add: wideHost_readings length_createLoop)
  have five: "radius (particles ?s ! 0) = 5"
    by (simp add: wideHost_readings createLoop_all orbit_static RADIUS_five)
  have t0: "time ?s = 5 / 1000" by (simp add: wideHost_readings)
  from animation_frame_positions [OF r pending len, of wideHost] five t0
  show ?thesis using r pending len
    by (simp add: Let_def)
qed

section \<open>After teardown\<close>

lemma reachable_run: "reachable s \<Longrightarrow> reachable (run script s)"
proof (induction script arbitrary: s)
  case Nil
  then show ?case by simp
next
  case (Cons a script)
  obtain h e where a: "a = (h, e)" by (cases a)
  from Cons.prems have "reachable (step h e s)" by (rule reachable.stepped)
  then have "reachable (run script (step h e s))" by (rule Cons.IH)
  with a show ?case by simp
qed

lemma reachable_destroyed_torn: "reachable s \<Longrightarrow> isDestroyed s \<Longrightarrow> torn s"
  using reachable_lifecycle [of s] by (simp add: lifecycle_def)

lemma destroyed_callbacks:
  assumes "isDestroyed s"
  shows "effects (runFrame h fcb s) = effects s" "frames (runFrame h fcb s) = frames s"
    "timers (runFrame h fcb s) = timers s" "isDestroyed (runFrame h fcb s)"
    "effects (runTimer h tcb s) = effects s" "frames (runTimer h tcb s) = frames s"
    "timers (runTimer h tcb s) = timers s" "isDestroyed (runTimer h tcb s)"
  using assms
  by (simp_all add: callback_defs split: frameCallback.splits timerCallback.splits)

lemma torn_step_quiet:
  assumes "torn s"
  shows "effects (step h e s) = effects s @ (if e = DestroyCall then [RendererDispose] else [])"
    and "frames (step h e s) i = Some fcb \<Longrightarrow> frames s i = Some fcb"
    and "timers (step h e s) j = Some tcb \<Longrightarrow> timers s j = Some tcb"
proof -
  from assms have d: "isDestroyed s" and released: "animationId s = None" "\<not> resizeObserver s"
    "\<not> resizeHandler s" "\<not> orientationHandler s" "\<not> visibilityHandler s" "listeners s = {}"
    "\<not> observerConnected s" "resizeTimeout s = None" "galaxyGroup s = None"
    by (simp_all add: torn_def)
  show "effects (step h e s) = effects s @ (if e = DestroyCall then [RendererDispose] else [])"
  proof (cases e)
  qed (use d released in \<open>simp_all add: destroyed_callbacks split: option.splits\<close>)
  show "frames (step h e s) i = Some fcb \<Longrightarrow> frames s i = Some fcb"
  proof (cases e)
  qed (use d released in \<open>simp_all add: destroyed_callbacks split: option.splits if_splits\<close>)
  show "timers (step h e s) j = Some tcb \<Longrightarrow> timers s j = Some tcb"
  proof (cases e)
  qed (use d released in \<open>simp_all add: destroyed_callbacks split: option.splits if_splits\<close>)
qed

lemma torn_run_quiet:
  assumes "torn s"
  shows "torn (run script s) \<and>
         (\<exists>n. effects (run script s) = effects s @ replicate n RendererDispose) \<and>
         (\<forall>i cb. frames (run script s) i = Some cb \<longrightarrow> frames s i = Some cb) \<and>
         (\<forall>j cb. timers (run script s) j = Some cb \<longrightarrow> timers s j = Some cb)"
  using assms
proof (induction script arbitrary: s)
  case Nil
  then show ?case by simp
next
  case (Cons a script)
  obtain h e where a: "a = (h, e)" by (cases a)
  let ?t = "step h e s"
  from Cons.prems have t: "torn ?t" by (rule torn_step)
  note ih = Cons.IH [OF t]
  from ih obtain n where n: "effects (run script ?t) = effects ?t @ replicate n RendererDispose"
    by blast
  have "\<exists>m. effects (run script ?t) = effects s @ replicate m RendererDispose"
  proof (cases "e = DestroyCall")
    case True
    with n torn_step_quiet(1) [OF Cons.prems, of h e]
    have "effects (run script ?t) = effects s @ replicate (Suc n) RendererDispose" by simp
    then show ?thesis ..
  next
    case False
    with n torn_step_quiet(1) [OF Cons.prems, of h e]
    have "effects (run script ?t) = effects s @ replicate n RendererDispose" by simp
    then show ?thesis ..
  qed
  moreover have "\<forall>i cb. frames (run script ?t) i = Some cb \<longrightarrow> frames s i = Some cb"
    using ih torn_step_quiet(2) [OF Cons.prems] by blast
  moreover have "\<forall>j cb. timers (run script ?t) j = Some cb \<longrightarrow> timers s j = Some cb"
    using ih torn_step_quiet(3) [OF Cons.prems] by blast
  ultimately show ?case using ih a by simp
qed


lemma count_list_replicate_other: "x \<noteq> y \<Longrightarrow> count_list (xs @ replicate n x) y = count_list xs y"
  by (induction n) (simp_all add: replicate_app_Cons_same [symmetric] del: replicate_Suc)

text \<open>
  Claim C2. \<open>destroy()\<close> sets the destroyed flag. With the flag set, every frame callback
  and every timer callback returns without an effect and without registering a callback.
  From a reachable state with the flag set, whatever the host does next (pending timers
  and frames firing, events, further \<open>destroy()\<close> calls), the flag stays set, no render is
  made (the only effects are the renderer disposals of further \<open>destroy()\<close> calls), no frame
  or timer callback is added, and no listener or observer is attached.
\<close>

theorem no_render_after_destroy:
  "isDestroyed (destroy s) \<and>
   (isDestroyed s \<longrightarrow>
      (\<forall>h cb. effects (runFrame h cb s) = effects s \<and> frames (runFrame h cb s) = frames s \<and>
         timers (runFrame h cb s) = timers s \<and> isDestroyed (runFrame h cb s)) \<and>
      (\<forall>h cb. effects (runTimer h cb s) = effects s \<and> frames (runTimer h cb s) = frames s \<and>
         timers (runTimer h cb s) = timers s \<and> isDestroyed (runTimer h cb s))) \<and>
   (reachable s \<and> isDestroyed s \<longrightarrow>
      (\<forall>script.
         let after = run script s
         in isDestroyed after \<and>
            count_list (effects after) Render = count_list (effects s) Render \<and>
            (\<exists>n. effects after = effects s @ replicate n RendererDispose) \<and>
            (\<forall>i cb. frames after i = Some cb \<longrightarrow> frames s i = Some cb) \<and>
            (\<forall>j cb. timers after j = Some cb \<longrightarrow> timers s j = Some cb) \<and>
            listeners after = {} \<and> \<not> observerConnected after))"
proof (intro conjI impI allI)
  show "isDestroyed (destroy s)" by simp
next
  fix h cb assume "isDestroyed s"
  then show "effects (runFrame h cb s) = effects s" "frames (runFrame h cb s) = frames s"
    "timers (runFrame h cb s) = timers s" "isDestroyed (runFrame h cb s)"
    by (simp_all add: destroyed_callbacks)
next
  fix h cb assume "isDestroyed s"
  then show "effects (runTimer h cb s) = effects s" "frames (runTimer h cb s) = frames s"
    "timers (runTimer h cb s) = timers s" "isDestroyed (runTimer h cb s)"
    by (simp_all add: destroyed_callbacks)
next
  fix script assume "reachable s \<and> isDestroyed s"
  then have "torn s" by (simp add: reachable_destroyed_torn)
  note quiet = torn_run_quiet [OF this, of script]
  then obtain n where n: "effects (run script s) = effects s @ replicate n RendererDispose"
    by blast
  then have "count_list (effects (run script s)) Render = count_list (effects s) Render"
    by (simp add: count_list_replicate_other)
  with quiet n show "let after = run script s
         in isDestroyed after \<and>
            count_list (effects after) Render = count_list (effects s) Render \<and>
            (\<exists>n. effects after = effects s @ replicate n RendererDispose) \<and>
            (\<forall>i cb. frames after i = Some cb \<longrightarrow> frames s i = Some cb) \<and>
            (\<forall>j cb. timers after j = Some cb \<longrightarrow> timers s j = Some cb) \<and>
            listeners after = {} \<and> \<not> observerConnected after"
    unfolding Let_def torn_def by blast
qed

theorem no_render_after_destroy_witness:
  "reachable (run resizeThenDestroy (construct wideHost quarterRandom)) \<and>
   isDestroyed (run resizeThenDestroy (construct wideHost quarterRandom)) \<and>
   frames (run resizeThenDestroy (construct wideHost quarterRandom)) 2 =
     Some (UpdateSizeCallback WindowResizeSource) \<and>
   count_list (effects (run [(wideHost, FrameFires 2)]
       (run resizeThenDestroy (construct wideHost quarterRandom)))) Render =
     count_list (effects (run resizeThenDestroy (construct wideHost quarterRandom))) Render"
proof -
  let ?s = "run resizeThenDestroy (construct wideHost quarterRandom)"
  have r: "reachable ?s" by (intro reachable_run reachable.constructed)
  have d: "isDestroyed ?s" by (simp add: resizeThenDestroy_def)
  have pending: "frames ?s 2 = Some (UpdateSizeCallback WindowResizeSource)"
    by (simp add: resizeThenDestroy_def wideHost_readings runTimer_def)
  from no_render_after_destroy [of ?s] r d
  have "\<forall>script.
         let after = run script ?s
         in isDestroyed after \<and>
            count_list (effects after) Render = count_list (effects ?s) Render \<and>
            (\<exists>n. effects after = effects ?s @ replicate n RendererDispose) \<and>
            (\<forall>i cb. frames after i = Some cb \<longrightarrow> frames ?s i = Some cb) \<and>
            (\<forall>j cb. timers after j = Some cb \<longrightarrow> timers ?s j = Some cb) \<and>
            listeners after = {} \<and> \<not> observerConnected after"
    by blast
  then have "count_list (effects (run [(wideHost, FrameFires 2)] ?s)) Render =
     count_list (effects ?s) Render"
    unfolding Let_def by blast
  with r d pending show ?thesis by blast
qed

section \<open>Releasing the textures\<close>

lemma count_disposeParticles:
  "count_list (disposeParticles k ps) (TextureDispose t) =
     length (filter (\<lambda>p. mapTexture (material (sprite p)) = Some t) ps)"
  by (induction ps arbitrary: k) (auto split: option.splits)

lemma count_destroy_texture:
  "count_list (effects (destroy s)) (TextureDispose t) =
     count_list (effects s) (TextureDispose t) +
     (case galaxyGroup s of
        None \<Rightarrow> 0
      | Some g \<Rightarrow> length (filter (\<lambda>p. mapTexture (material (sprite p)) = Some t) (particles s)))"
  by (simp add: count_disposeParticles split: option.splits)

lemma texture_cases: "filter (\<lambda>p. mapTexture (material (sprite p)) = Some Texture1) ps = ps1 \<Longrightarrow>
  filter (\<lambda>p. mapTexture (material (sprite p)) = Some Texture0) ps = ps0 \<Longrightarrow>
  \<forall>p \<in> set ps. mapTexture (material (sprite p)) \<noteq> None \<Longrightarrow>
  length ps1 + length ps0 = length ps"
proof (induction ps arbitrary: ps1 ps0)
  case Nil
  then show ?case by simp
next
  case (Cons p ps)
  from Cons.prems(3) obtain t where t: "mapTexture (material (sprite p)) = Some t" by auto
  have rest: "length (filter (\<lambda>p. mapTexture (material (sprite p)) = Some Texture1) ps) +
    length (filter (\<lambda>p. mapTexture (material (sprite p)) = Some Texture0) ps) = length ps"
    using Cons.prems(3) by (intro Cons.IH) simp_all
  show ?case
    using Cons.prems(1,2) t rest by (cases t) auto
qed

lemma optimizedParticleCount_values:
  "optimizedParticleCount h = 2400 \<or> optimizedParticleCount h = 4800 \<or>
   optimizedParticleCount h = 8000"
  by (simp add: optimizedParticleCount_def PARTICLES_COUNT_def split: device.splits)

lemma length_particles_step:
  "e \<noteq> DestroyCall \<Longrightarrow> length (particles (step h e s)) = length (particles s)"
  by (cases e)
    (auto simp add: callback_defs
      split: option.splits timerCallback.splits frameCallback.splits)

lemma isDestroyed_step:
  "e \<noteq> DestroyCall \<Longrightarrow> isDestroyed (step h e s) = isDestroyed s"
  by (cases e)
    (auto simp add: callback_defs
      split: option.splits timerCallback.splits frameCallback.splits)

lemma reachable_particle_count:
  "reachable s \<Longrightarrow> isDestroyed s \<or> length (particles s) = 2400 \<or>
     length (particles s) = 4800 \<or> length (particles s) = 8000"
proof (induction rule: reachable.induct)
  case (constructed h random)
  show ?case
    using optimizedParticleCount_values [of h] by (simp add: length_createLoop)
next
  case (stepped s h e)
  show ?case
  proof (cases "e = DestroyCall")
    case True
    then show ?thesis by simp
  next
    case False
    with stepped.IH show ?thesis
      by (simp add: length_particles_step isDestroyed_step)
  qed
qed

text \<open>
  Claim C1 says that teardown invokes the dispose of each of the two glyph textures
  exactly once, however many particles refer to it. The loop of \<open>destroy\<close> calls
  \<open>material.map.dispose()\<close> for every particle: on a desktop system whose draws all give
  the glyph "1", the texture of that glyph is disposed 8000 times.
\<close>

theorem texture_release_once_counterexample:
  "count_list (effects (destroy (construct wideHost quarterRandom))) (TextureDispose Texture1) = 8000 \<and>
   count_list (effects (destroy (construct wideHost quarterRandom))) (TextureDispose Texture1) \<noteq> 1"
proof -
  have all: "filter (\<lambda>p. mapTexture (material (sprite p)) = Some Texture1)
      (particles (construct wideHost quarterRandom)) = particles (construct wideHost quarterRandom)"
    by (simp add: wideHost_readings createLoop_all filter_map o_def orbit_static
        mapTexture_createParticle quarterRandom_def)
  have "count_list (effects (destroy (construct wideHost quarterRandom))) (TextureDispose Texture1) =
        length (particles (construct wideHost quarterRandom))"
    unfolding count_destroy_texture all by (simp add: wideHost_readings)
  also have "\<dots> = 8000"
    by (simp add: wideHost_readings length_createLoop)
  finally show ?thesis by simp
qed

text \<open>
  Claim C1, as the code has it. \<open>destroy()\<close> invokes a texture's dispose once for every
  particle whose material refers to the texture, when the group is still there: in a live
  reachable system the two textures together get one call per particle (2400, 4800 or
  8000 calls). A further \<open>destroy()\<close> finds the group cleared and invokes no texture
  dispose.
\<close>

theorem texture_release_per_particle:
  "count_list (effects (destroy s)) (TextureDispose t) =
     count_list (effects s) (TextureDispose t) +
     (if galaxyGroup s = None then 0
      else length (filter (\<lambda>p. mapTexture (material (sprite p)) = Some t) (particles s))) \<and>
   count_list (effects (destroy (destroy s))) (TextureDispose t) =
     count_list (effects (destroy s)) (TextureDispose t) \<and>
   (reachable s \<and> \<not> isDestroyed s \<longrightarrow>
      count_list (effects (destroy s)) (TextureDispose Texture1) +
      count_list (effects (destroy s)) (TextureDispose Texture0) =
        count_list (effects s) (TextureDispose Texture1) +
        count_list (effects s) (TextureDispose Texture0) + length (particles s) \<and>
      (length (particles s) = 2400 \<or> length (particles s) = 4800 \<or> length (particles s) = 8000))"
proof (intro conjI impI)
  show "count_list (effects (destroy s)) (TextureDispose t) =
     count_list (effects s) (TextureDispose t) +
     (if galaxyGroup s = None then 0
      else length (filter (\<lambda>p. mapTexture (material (sprite p)) = Some t) (particles s)))"
    unfolding count_destroy_texture by (simp split: option.splits)
next
  have "galaxyGroup (destroy s) = None" by simp
  then show "count_list (effects (destroy (destroy s))) (TextureDispose t) =
     count_list (effects (destroy s)) (TextureDispose t)"
    unfolding count_destroy_texture [of "destroy s"] by simp
next
  assume live: "reachable s \<and> \<not> isDestroyed s"
  then have g: "galaxyGroup s \<noteq> None"
    using reachable_lifecycle [of s] by (simp add: lifecycle_def)
  from live have "\<forall>p \<in> set (particles s). mapTexture (material (sprite p)) \<noteq> None"
    using reachable_particlesSound [of s] by (simp add: particlesSound_def)
  then have "length (filter (\<lambda>p. mapTexture (material (sprite p)) = Some Texture1) (particles s)) +
    length (filter (\<lambda>p. mapTexture (material (sprite p)) = Some Texture0) (particles s)) =
    length (particles s)"
    by (intro texture_cases) simp_all
  with g show "count_list (effects (destroy s)) (TextureDispose Texture1) +
      count_list (effects (destroy s)) (TextureDispose Texture0) =
        count_list (effects s) (TextureDispose Texture1) +
        count_list (effects s) (TextureDispose Texture0) + length (particles s)"
    unfolding count_destroy_texture by (auto split: option.splits)
  from live show "length (particles s) = 2400 \<or> length (particles s) = 4800 \<or>
      length (particles s) = 8000"
    using reachable_particle_count [of s] by simp
qed

theorem texture_release_per_particle_witness:
  "reachable (construct wideHost quarterRandom) \<and> \<not> isDestroyed (construct wideHost quarterRandom) \<and>
   count_list (effects (destroy (construct wideHost quarterRandom))) (TextureDispose Texture1) +
   count_list (effects (destroy (construct wideHost quarterRandom))) (TextureDispose Texture0) = 8000"
proof -
  let ?s = "construct wideHost quarterRandom"
  have r: "reachable ?s" by (rule reachable.constructed)
  have live: "\<not> isDestroyed ?s" by simp
  have none: "count_list (effects ?s) (TextureDispose Texture1) = 0"
    "count_list (effects ?s) (TextureDispose Texture0) = 0"
    by (simp_all add: wideHost_readings)
  have len: "length (particles ?s) = 8000"
    by (simp add: wideHost_readings length_createLoop)
  from texture_release_per_particle [of ?s Texture1] r live
  have "count_list (effects (destroy ?s)) (TextureDispose Texture1) +
      count_list (effects (destroy ?s)) (TextureDispose Texture0) =
        count_list (effects ?s) (TextureDispose Texture1) +
        count_list (effects ?s) (TextureDispose Texture0) + length (particles ?s)"
    by blast
  with none len r live show ?thesis by simp
qed

section \<open>Size updates\<close>

lemma updateSize_pending: "updateSizePending s \<Longrightarrow> updateSize src s = s"
  by (simp add: updateSize_def)

lemma updateSize_absorbs: "updateSize src2 (updateSize src1 s) = updateSize src1 s"
  by (simp add: updateSize_def host_calls)

lemma updateSize_requests:
  "\<not> isDestroyed s \<Longrightarrow> \<not> updateSizePending s \<Longrightarrow>
   effects (updateSize src s) = effects s @ [RequestAnimationFrame (nextFrame s) (UpdateSizeCallback src)] \<and>
   frames (updateSize src s) = (frames s)(nextFrame s \<mapsto> UpdateSizeCallback src) \<and>
   updateSizePending (updateSize src s)"
  by simp

lemma updateSizeFrame_abort:
  "\<not> resizes h s \<Longrightarrow> updateSizeFrame h src s = s\<lparr>updateSizePending := False\<rparr>"
  by (auto simp add: updateSizeFrame_def resizes_def Let_def split: prod.splits option.splits)

lemma resizes_after:
  "getCanvasSize h2 = getCanvasSize h1 \<Longrightarrow> \<not> resizes h2 (updateSizeFrame h1 src s)"
  by (simp add: resizes_def)

lemma updateSizeFrame_idem:
  assumes "getCanvasSize h2 = getCanvasSize h1"
  shows "updateSizeFrame h2 src2 (updateSizeFrame h1 src1 s) = updateSizeFrame h1 src1 s"
proof -
  let ?first = "updateSizeFrame h1 src1 s"
  from assms have "\<not> resizes h2 ?first" by (rule resizes_after)
  then have "updateSizeFrame h2 src2 ?first = ?first\<lparr>updateSizePending := False\<rparr>"
    by (rule updateSizeFrame_abort)
  moreover have "updateSizePending ?first = False" by simp
  ultimately show ?thesis by simp
qed


text \<open>
  Claim C4. Two runs of the size update in succession with the same resolved canvas size:
  the second run of the frame callback changes nothing at all. Followed along the whole
  path (the trigger calls \<open>updateSize\<close>, the host then runs the frame callback), the second
  run adds only the frame request to the effects: no camera call, no projection recompute,
  no renderer resize and no render; camera, renderer size, stored size and tier and the
  pixel-ratio timer are as the first run left them, and \<open>updateSizePending\<close> is cleared.
\<close>

theorem size_update_idempotent:
  assumes "getCanvasSize h2 = getCanvasSize h1"
  shows "let first = updateSizeFrame h1 src1 s;
             requested = updateSize src2 first;
             second = updateSizeFrame h2 src2 requested
         in updateSizeFrame h2 src2 first = first \<and>
            \<not> updateSizePending second \<and>
            camera second = camera first \<and>
            rendererSize second = rendererSize first \<and>
            rendererPixelRatio second = rendererPixelRatio first \<and>
            lastSize second = lastSize first \<and>
            lastDevice second = lastDevice first \<and>
            timers second = timers first \<and>
            resizeTimeout second = resizeTimeout first \<and>
            effects second = effects requested \<and>
            effects requested = effects first @
              (if isDestroyed first then []
               else [RequestAnimationFrame (nextFrame first) (UpdateSizeCallback src2)]) \<and>
            (\<not> isDestroyed first \<longrightarrow>
               step h2 (FrameFires (nextFrame first)) requested =
                 second\<lparr>frames := (frames requested)(nextFrame first := None)\<rparr>)"
proof -
  let ?first = "updateSizeFrame h1 src1 s"
  let ?requested = "updateSize src2 ?first"
  from assms have no: "\<not> resizes h2 ?first" by (rule resizes_after)
  then have no': "\<not> resizes h2 ?requested" by (simp add: resizes_def)
  have idem: "updateSizeFrame h2 src2 ?first = ?first"
    using assms by (rule updateSizeFrame_idem)
  have fired: "step h2 (FrameFires (nextFrame ?first)) ?requested =
      (updateSizeFrame h2 src2 ?requested)\<lparr>frames := (frames ?requested)(nextFrame ?first := None)\<rparr>"
    if "\<not> isDestroyed ?first"
    using that no' by (simp add: runFrame_def updateSizeFrame_abort resizes_def)
  show ?thesis
    unfolding Let_def using no no' idem fired by simp
qed

theorem size_update_idempotent_witness:
  "getCanvasSize wideHost = getCanvasSize wideHost \<and>
   resizes wideHost (construct wideHost quarterRandom) \<and>
   lastSize (updateSizeFrame wideHost WindowResizeSource (construct wideHost quarterRandom)) =
     Some (1920, 1080) \<and>
   updateSizeFrame wideHost ResizeObserverSource
     (updateSizeFrame wideHost WindowResizeSource (construct wideHost quarterRandom)) =
     updateSizeFrame wideHost WindowResizeSource (construct wideHost quarterRandom)"
proof -
  have same: "getCanvasSize wideHost = getCanvasSize wideHost" by (rule refl)
  have goes: "resizes wideHost (construct wideHost quarterRandom)"
    by (simp add: resizes_def wideHost_readings)
  then have stored:
    "lastSize (updateSizeFrame wideHost WindowResizeSource (construct wideHost quarterRandom)) =
     Some (1920, 1080)"
    by (simp add: wideHost_readings)
  from size_update_idempotent [OF same, where ?src1.0 = WindowResizeSource
      and ?src2.0 = ResizeObserverSource and ?s = "construct wideHost quarterRandom"]
  have "updateSizeFrame wideHost ResizeObserverSource
     (updateSizeFrame wideHost WindowResizeSource (construct wideHost quarterRandom)) =
     updateSizeFrame wideHost WindowResizeSource (construct wideHost quarterRandom)"
    unfolding Let_def by (rule conjunct1)
  with goes stored show ?thesis by simp
qed

section \<open>One size update in flight\<close>

lemma disposeParticles_projection:
  "count_list (disposeParticles k ps) CameraUpdateProjectionMatrix = 0"
  by (induction ps arbitrary: k) (auto split: option.splits)

text \<open>A step recomputes the projection exactly when it runs a size update that goes through.\<close>

lemma step_projection:
  "count_list (effects (step h e s)) CameraUpdateProjectionMatrix =
     count_list (effects s) CameraUpdateProjectionMatrix +
     (if (\<exists>i src. e = FrameFires i \<and> frames s i = Some (UpdateSizeCallback src)) \<and> resizes h s
      then 1 else 0)"
  by (cases e)
    (auto simp add: callback_defs disposeParticles_projection
      split: option.splits timerCallback.splits frameCallback.splits)

lemma step_lastSize:
  "lastSize (step h e s) =
     (if (\<exists>i src. e = FrameFires i \<and> frames s i = Some (UpdateSizeCallback src)) \<and> resizes h s
      then Some (getCanvasSize h) else lastSize s)"
  by (cases e)
    (auto simp add: callback_defs
      split: option.splits timerCallback.splits frameCallback.splits)

lemma constant_size_run:
  assumes "\<forall>(h, e) \<in> set script. getCanvasSize h = z"
  shows "(lastSize s = Some z \<longrightarrow>
           count_list (effects (run script s)) CameraUpdateProjectionMatrix =
             count_list (effects s) CameraUpdateProjectionMatrix) \<and>
         count_list (effects (run script s)) CameraUpdateProjectionMatrix \<le>
           Suc (count_list (effects s) CameraUpdateProjectionMatrix)"
  using assms
proof (induction script arbitrary: s)
  case Nil
  then show ?case by simp
next
  case (Cons a script)
  obtain h e where a: "a = (h, e)" by (cases a)
  from Cons.prems a have size: "getCanvasSize h = z"
    and rest: "\<forall>(h, e) \<in> set script. getCanvasSize h = z"
    by simp_all
  let ?t = "step h e s"
  let ?through = "(\<exists>i src. e = FrameFires i \<and> frames s i = Some (UpdateSizeCallback src)) \<and> resizes h s"
  note ih = Cons.IH [OF rest, of ?t]
  show ?case
  proof (cases ?through)
    case True
    then have "lastSize ?t = Some z"
      unfolding step_lastSize using size by simp
    with ih have "count_list (effects (run script ?t)) CameraUpdateProjectionMatrix =
        count_list (effects ?t) CameraUpdateProjectionMatrix"
      by simp
    moreover from True have "count_list (effects ?t) CameraUpdateProjectionMatrix =
        Suc (count_list (effects s) CameraUpdateProjectionMatrix)"
      unfolding step_projection by simp
    moreover from True size have "lastSize s \<noteq> Some z"
      by (auto simp add: resizes_def)
    ultimately show ?thesis using a by simp
  next
    case False
    then have "lastSize ?t = lastSize s"
      "count_list (effects ?t) CameraUpdateProjectionMatrix =
        count_list (effects s) CameraUpdateProjectionMatrix"
      unfolding step_lastSize step_projection by auto
    with ih a show ?thesis by simp
  qed
qed


lemma rotatedHost_readings:
  "deviceType rotatedHost = Desktop" "\<not> documentHidden rotatedHost"
  "getCanvasSize rotatedHost = (1080, 1920)"
  by (simp_all add: deviceType_def getCanvasSize_def Math_round_def rotatedHost_def)

text \<open>
  Claim C3 says that simultaneous triggers result in exactly one settled size update. The
  flag coalesces only the triggers whose debounce timer runs while the update is pending.
  The orientation timer waits 150 ms, the other two 16 ms: when the three triggers come
  together, the update of the two short timers has run before the orientation timer calls
  \<open>updateSize\<close>, which schedules a second update; with the canvas rotated in between, both
  go through (the projection is recomputed twice, the renderer resized to each size).
\<close>

theorem single_settled_update_counterexample:
  "count_list (effects (construct wideHost quarterRandom)) CameraUpdateProjectionMatrix = 0 \<and>
   count_list (effects (run rotationBurst (construct wideHost quarterRandom)))
     CameraUpdateProjectionMatrix = 2 \<and>
   count_list (effects (run rotationBurst (construct wideHost quarterRandom)))
     (RendererSetSize 1920 1080 False) = 1 \<and>
   count_list (effects (run rotationBurst (construct wideHost quarterRandom)))
     (RendererSetSize 1080 1920 False) = 1 \<and>
   count_list (effects (run rotationBurst (construct wideHost quarterRandom)))
     (RequestAnimationFrame 2 (UpdateSizeCallback WindowResizeSource)) = 1 \<and>
   count_list (effects (run rotationBurst (construct wideHost quarterRandom)))
     (RequestAnimationFrame 3 (UpdateSizeCallback OrientationChangeSource)) = 1"
  by (simp add: rotationBurst_def wideHost_readings rotatedHost_readings runTimer_def
      runFrame_def resizes_def)

text \<open>
  Claim C3, as the code has it. The size update is single-flight. While
  \<open>updateSizePending\<close> is set, a call of \<open>updateSize\<close> from any source, and so the debounce
  timer of any of the three triggers, changes nothing; a second call right after a first is
  always absorbed, so three triggers on an idle, live system leave one frame request, that
  of the first. In every reachable state at most one size-update callback is pending, and
  then the flag is set. A step of the host recomputes the projection exactly when it runs a
  pending size update on a live system whose resolved size is non-zero and differs from the
  last one applied, and then once; so in any run of the host during which the resolved
  canvas size stays the same, whatever the triggers and their order, at most one size
  update goes through.
\<close>

theorem size_update_single_flight:
  "(updateSizePending s \<longrightarrow>
      (\<forall>src. updateSize src s = s) \<and>
      (\<forall>h cb. cb \<noteq> PixelRatioUpdate \<longrightarrow> runTimer h cb s = s)) \<and>
   updateSize src2 (updateSize src1 s) = updateSize src1 s \<and>
   (\<not> isDestroyed s \<and> \<not> updateSizePending s \<longrightarrow>
      (let after = updateSize src3 (updateSize src2 (updateSize src1 s))
       in effects after =
            effects s @ [RequestAnimationFrame (nextFrame s) (UpdateSizeCallback src1)] \<and>
          frames after = (frames s)(nextFrame s \<mapsto> UpdateSizeCallback src1) \<and>
          updateSizePending after)) \<and>
   (reachable s \<longrightarrow>
      (\<forall>i j a b. frames s i = Some (UpdateSizeCallback a) \<and>
         frames s j = Some (UpdateSizeCallback b) \<longrightarrow> i = j) \<and>
      (\<forall>i a. frames s i = Some (UpdateSizeCallback a) \<longrightarrow> updateSizePending s)) \<and>
   (frames s i = Some (UpdateSizeCallback src) \<and> resizes h s \<longrightarrow>
      count_list (effects (step h (FrameFires i) s)) CameraUpdateProjectionMatrix =
        Suc (count_list (effects s) CameraUpdateProjectionMatrix)) \<and>
   ((\<forall>(h, e) \<in> set script. getCanvasSize h = z) \<longrightarrow>
      count_list (effects (run script s)) CameraUpdateProjectionMatrix \<le>
        Suc (count_list (effects s) CameraUpdateProjectionMatrix)) \<and>
   count_list (effects (step h e s)) CameraUpdateProjectionMatrix =
     count_list (effects s) CameraUpdateProjectionMatrix +
     (if (\<exists>i src. e = FrameFires i \<and> frames s i = Some (UpdateSizeCallback src)) \<and> resizes h s
      then 1 else 0)"
proof (intro conjI impI allI)
  show "count_list (effects (step h e s)) CameraUpdateProjectionMatrix =
     count_list (effects s) CameraUpdateProjectionMatrix +
     (if (\<exists>i src. e = FrameFires i \<and> frames s i = Some (UpdateSizeCallback src)) \<and> resizes h s
      then 1 else 0)"
    by (rule step_projection)
next
  fix src' assume "updateSizePending s"
  then show "updateSize src' s = s" by (rule updateSize_pending)
next
  fix h' cb assume "updateSizePending s" and "cb \<noteq> PixelRatioUpdate"
  then show "runTimer h' cb s = s"
    by (cases cb) (simp_all add: runTimer_def updateSize_pending)
next
  show "updateSize src2 (updateSize src1 s) = updateSize src1 s"
    by (rule updateSize_absorbs)
next
  assume "\<not> isDestroyed s \<and> \<not> updateSizePending s"
  then show "let after = updateSize src3 (updateSize src2 (updateSize src1 s))
       in effects after =
            effects s @ [RequestAnimationFrame (nextFrame s) (UpdateSizeCallback src1)] \<and>
          frames after = (frames s)(nextFrame s \<mapsto> UpdateSizeCallback src1) \<and>
          updateSizePending after"
    unfolding updateSize_absorbs Let_def by (simp add: updateSize_requests)
next
  fix i' j a b
  assume "reachable s"
    and "frames s i' = Some (UpdateSizeCallback a) \<and> frames s j = Some (UpdateSizeCallback b)"
  then show "i' = j"
    using reachable_singleFlight [of s] unfolding singleFlight_def by blast
next
  fix i' a
  assume "reachable s" and "frames s i' = Some (UpdateSizeCallback a)"
  then show "updateSizePending s"
    using reachable_singleFlight [of s] unfolding singleFlight_def by blast
next
  assume "frames s i = Some (UpdateSizeCallback src) \<and> resizes h s"
  then show "count_list (effects (step h (FrameFires i) s)) CameraUpdateProjectionMatrix =
        Suc (count_list (effects s) CameraUpdateProjectionMatrix)"
    unfolding step_projection by auto
next
  assume "\<forall>(h, e) \<in> set script. getCanvasSize h = z"
  then show "count_list (effects (run script s)) CameraUpdateProjectionMatrix \<le>
        Suc (count_list (effects s) CameraUpdateProjectionMatrix)"
    using constant_size_run by blast
qed


theorem size_update_single_flight_witness:
  "updateSizePending (run [(wideHost, WindowResize), (wideHost, TimerFires 1)]
     (construct wideHost quarterRandom)) \<and>
   updateSize OrientationChangeSource
     (run [(wideHost, WindowResize), (wideHost, TimerFires 1)] (construct wideHost quarterRandom)) =
     run [(wideHost, WindowResize), (wideHost, TimerFires 1)] (construct wideHost quarterRandom) \<and>
   \<not> isDestroyed (construct wideHost quarterRandom) \<and>
   \<not> updateSizePending (construct wideHost quarterRandom) \<and>
   effects (updateSize ResizeObserverSource (updateSize OrientationChangeSource
       (updateSize WindowResizeSource (construct wideHost quarterRandom)))) =
     effects (construct wideHost quarterRandom) @
       [RequestAnimationFrame 2 (UpdateSizeCallback WindowResizeSource)] \<and>
   reachable (run [(wideHost, WindowResize), (wideHost, TimerFires 1)]
     (construct wideHost quarterRandom)) \<and>
   frames (run [(wideHost, WindowResize), (wideHost, TimerFires 1)]
     (construct wideHost quarterRandom)) 2 = Some (UpdateSizeCallback WindowResizeSource) \<and>
   resizes wideHost (run [(wideHost, WindowResize), (wideHost, TimerFires 1)]
     (construct wideHost quarterRandom)) \<and>
   list_all (\<lambda>x. getCanvasSize (fst x) = (1920, 1080)) tripleTrigger \<and>
   count_list (effects (construct wideHost quarterRandom)) CameraUpdateProjectionMatrix = 0 \<and>
   count_list (effects (run tripleTrigger (construct wideHost quarterRandom)))
     CameraUpdateProjectionMatrix = 1"
proof -
  let ?c = "construct wideHost quarterRandom"
  let ?p = "run [(wideHost, WindowResize), (wideHost, TimerFires 1)] ?c"
  have pending: "updateSizePending ?p"
    by (simp add: wideHost_readings runTimer_def)
  have idle: "\<not> isDestroyed ?c" "\<not> updateSizePending ?c" by simp_all
  have r: "reachable ?p" by (intro reachable_run reachable.constructed)
  have frame: "frames ?p 2 = Some (UpdateSizeCallback WindowResizeSource)"
    by (simp add: wideHost_readings runTimer_def)
  have goes: "resizes wideHost ?p"
    by (simp add: resizes_def wideHost_readings runTimer_def)
  have sizes: "list_all (\<lambda>x. getCanvasSize (fst x) = (1920, 1080)) tripleTrigger"
    by (simp add: tripleTrigger_def wideHost_readings)
  then have sizes': "\<forall>(h, e) \<in> set tripleTrigger. getCanvasSize h = (1920, 1080)"
    by (auto simp add: list_all_iff)
  have zero: "count_list (effects ?c) CameraUpdateProjectionMatrix = 0"
    by (simp add: wideHost_readings)
  note flight = size_update_single_flight [where s = ?p and ?src1.0 = WindowResizeSource]
  from flight pending have absorbed: "updateSize OrientationChangeSource ?p = ?p"
    by blast
  note idleFlight = size_update_single_flight [where s = ?c and ?src1.0 = WindowResizeSource
      and ?src2.0 = OrientationChangeSource and ?src3.0 = ResizeObserverSource
      and script = tripleTrigger and z = "(1920, 1080)"]
  from idleFlight idle have one: "effects (updateSize ResizeObserverSource
       (updateSize OrientationChangeSource (updateSize WindowResizeSource ?c))) =
     effects ?c @ [RequestAnimationFrame (nextFrame ?c) (UpdateSizeCallback WindowResizeSource)]"
    unfolding Let_def by blast
  have n: "nextFrame ?c = 2" by (simp add: wideHost_readings)
  from idleFlight sizes' zero
  have most: "count_list (effects (run tripleTrigger ?c)) CameraUpdateProjectionMatrix \<le> Suc 0"
    by simp
  have "count_list (effects (run tripleTrigger ?c)) CameraUpdateProjectionMatrix \<ge> 1"
    by (simp add: tripleTrigger_def wideHost_readings runTimer_def runFrame_def resizes_def)
  with most have exactly: "count_list (effects (run tripleTrigger ?c)) CameraUpdateProjectionMatrix = 1"
    by simp
  from pending absorbed idle one [unfolded n] r frame goes sizes zero exactly
  show ?thesis by blast
qed

section \<open>Page visibility\<close>










end
